theory Spec2Isabelle
  imports Main "HOL-Library.Sublist"
begin

section \<open>Strings and paths: the Go library functions the converter calls\<close>

text \<open>
  Go strings are byte sequences; a \<^typ>\<open>string\<close> is a list of bytes. File contents,
  file names, paths and messages are all of this type.
\<close>

type_synonym bytes = string
type_synonym path = string

text \<open>
  \<^verbatim>\<open>strings.ToLower\<close>. On the ASCII letters \<^verbatim>\<open>A\<close> to \<^verbatim>\<open>Z\<close> it adds the offset to the lower
  case letter; every other ASCII byte is kept. A rune outside ASCII is mapped by the Unicode
  tables; none of them is mapped to one of the bytes of \<^verbatim>\<open>.webp\<close>, the only text the result is
  ever compared with, so bytes outside ASCII are kept here as they are.
\<close>

definition toLowerByte :: "char \<Rightarrow> char" where
  "toLowerByte c =
     (case map_of (zip ''ABCDEFGHIJKLMNOPQRSTUVWXYZ'' ''abcdefghijklmnopqrstuvwxyz'') c of
        Some l \<Rightarrow> l
      | None \<Rightarrow> c)"

definition toLower :: "string \<Rightarrow> string" where
  "toLower s = map toLowerByte s"

text \<open>\<^verbatim>\<open>strings.HasSuffix\<close> and \<^verbatim>\<open>strings.TrimSuffix\<close>.\<close>

definition hasSuffix :: "string \<Rightarrow> string \<Rightarrow> bool" where
  "hasSuffix s suf \<longleftrightarrow>
     length suf \<le> length s \<and> drop (length s - length suf) s = suf"

definition trimSuffix :: "string \<Rightarrow> string \<Rightarrow> string" where
  "trimSuffix s suf = (if hasSuffix s suf then take (length s - length suf) s else s)"

text \<open>
  \<^verbatim>\<open>filepath.Ext\<close>: scan from the last byte towards the first, stop at a path separator,
  return the text from the first dot met. \<open>extFrom p i\<close> has the bytes below index \<open>i\<close> left
  to look at.
\<close>

fun extFrom :: "path \<Rightarrow> nat \<Rightarrow> string" where
  "extFrom p 0 = []"
| "extFrom p (Suc i) =
     (if p ! i = CHR ''/'' then []
      else if p ! i = CHR ''.'' then drop i p
      else extFrom p i)"

definition ext :: "path \<Rightarrow> string" where
  "ext p = extFrom p (length p)"

text \<open>
  \<^verbatim>\<open>filepath.Join\<close> of two elements (Unix separators): empty elements are dropped, the
  rest is joined with a slash and passed to \<^verbatim>\<open>filepath.Clean\<close>. \<open>clean\<close> works on the
  elements between slashes: empty elements and \<^verbatim>\<open>.\<close> vanish, \<^verbatim>\<open>..\<close> removes the
  element before it when there is one, is dropped at the root and is kept at the start of a
  relative path; the empty result is \<^verbatim>\<open>.\<close>.
\<close>

fun splitSlash :: "string \<Rightarrow> string list" where
  "splitSlash [] = [[]]"
| "splitSlash (c # cs) =
     (if c = CHR ''/'' then [] # splitSlash cs
      else (case splitSlash cs of
              [] \<Rightarrow> [[c]]
            | e # es \<Rightarrow> (c # e) # es))"

fun joinSlash :: "string list \<Rightarrow> string" where
  "joinSlash [] = []"
| "joinSlash [e] = e"
| "joinSlash (e # es) = e @ ''/'' @ joinSlash es"

definition cleanStep :: "bool \<Rightarrow> string list \<Rightarrow> string \<Rightarrow> string list" where
  "cleanStep rooted st e =
     (if e = [] \<or> e = ''.'' then st
      else if e = ''..'' then
        (if st \<noteq> [] \<and> last st \<noteq> ''..'' then butlast st
         else if rooted then st
         else st @ [''..''])
      else st @ [e])"

definition clean :: "path \<Rightarrow> path" where
  "clean p =
     (if p = [] then ''.''
      else
        let rooted = (hd p = CHR ''/'');
            out = (if rooted then ''/'' else []) @
                  joinSlash (foldl (cleanStep rooted) [] (splitSlash p))
        in if out = [] then ''.'' else out)"

definition join :: "path \<Rightarrow> string \<Rightarrow> path" where
  "join a b =
     (if a \<noteq> [] then clean (a @ ''/'' @ b)
      else if b \<noteq> [] then clean b
      else [])"

text \<open>The verb \<^verbatim>\<open>%d\<close> of \<^verbatim>\<open>fmt\<close> on a non-negative \<^verbatim>\<open>int\<close>: its decimal digits.\<close>

definition digit :: "nat \<Rightarrow> char" where
  "digit d = ''0123456789'' ! d"

function itoa :: "nat \<Rightarrow> string" where
  "itoa n = (if n < 10 then [digit n] else itoa (n div 10) @ [digit (n mod 10)])"
  by pat_completeness auto
termination
  by (relation "measure id") auto

declare itoa.simps [simp del]

section \<open>Message texts\<close>

text \<open>
  The literal texts of the format strings, as UTF-8 bytes (the program's messages are in
  Russian). The English reading is given with each.
\<close>

text \<open>\<^verbatim>\<open>txt_read_failed\<close>: in English, \<^emph>\<open>could not read the file\<close>.\<close>

definition txt_read_failed :: string where
  "txt_read_failed =
   [CHR 0xD0, CHR 0xBD, CHR 0xD0, CHR 0xB5, CHR 0x20, CHR 0xD1, CHR 0x83, CHR 0xD0,
   CHR 0xB4, CHR 0xD0, CHR 0xB0, CHR 0xD0, CHR 0xBB, CHR 0xD0, CHR 0xBE, CHR 0xD1, CHR 0x81,
   CHR 0xD1, CHR 0x8C, CHR 0x20, CHR 0xD0, CHR 0xBF, CHR 0xD1, CHR 0x80, CHR 0xD0, CHR 0xBE,
   CHR 0xD1, CHR 0x87, CHR 0xD0, CHR 0xB8, CHR 0xD1, CHR 0x82, CHR 0xD0, CHR 0xB0, CHR 0xD1,
   CHR 0x82, CHR 0xD1, CHR 0x8C, CHR 0x20, CHR 0xD1, CHR 0x84, CHR 0xD0, CHR 0xB0, CHR 0xD0,
   CHR 0xB9, CHR 0xD0, CHR 0xBB] @ '': ''"

text \<open>\<^verbatim>\<open>txt_decode_failed\<close>: in English, \<^emph>\<open>could not decode the image (formats WebP and JPEG were tried)\<close>.\<close>

definition txt_decode_failed :: string where
  "txt_decode_failed =
   [CHR 0xD0, CHR 0xBD, CHR 0xD0, CHR 0xB5, CHR 0x20, CHR 0xD1, CHR 0x83, CHR 0xD0,
   CHR 0xB4, CHR 0xD0, CHR 0xB0, CHR 0xD0, CHR 0xBB, CHR 0xD0, CHR 0xBE, CHR 0xD1, CHR 0x81,
   CHR 0xD1, CHR 0x8C, CHR 0x20, CHR 0xD0, CHR 0xB4, CHR 0xD0, CHR 0xB5, CHR 0xD0, CHR 0xBA,
   CHR 0xD0, CHR 0xBE, CHR 0xD0, CHR 0xB4, CHR 0xD0, CHR 0xB8, CHR 0xD1, CHR 0x80, CHR 0xD0,
   CHR 0xBE, CHR 0xD0, CHR 0xB2, CHR 0xD0, CHR 0xB0, CHR 0xD1, CHR 0x82, CHR 0xD1, CHR 0x8C,
   CHR 0x20, CHR 0xD0, CHR 0xB8, CHR 0xD0, CHR 0xB7, CHR 0xD0, CHR 0xBE, CHR 0xD0, CHR 0xB1,
   CHR 0xD1, CHR 0x80, CHR 0xD0, CHR 0xB0, CHR 0xD0, CHR 0xB6, CHR 0xD0, CHR 0xB5, CHR 0xD0,
   CHR 0xBD, CHR 0xD0, CHR 0xB8, CHR 0xD0, CHR 0xB5] @ '' ('' @ [CHR 0xD0, CHR 0xBF,
   CHR 0xD1, CHR 0x80, CHR 0xD0, CHR 0xBE, CHR 0xD0, CHR 0xB1, CHR 0xD0, CHR 0xBE, CHR 0xD0,
   CHR 0xB2, CHR 0xD0, CHR 0xB0, CHR 0xD0, CHR 0xBB, CHR 0xD0, CHR 0xB8, CHR 0xD1, CHR 0x81,
   CHR 0xD1, CHR 0x8C, CHR 0x20, CHR 0xD1, CHR 0x84, CHR 0xD0, CHR 0xBE, CHR 0xD1, CHR 0x80,
   CHR 0xD0, CHR 0xBC, CHR 0xD0, CHR 0xB0, CHR 0xD1, CHR 0x82, CHR 0xD1, CHR 0x8B]
   @ '' WebP '' @ [CHR 0xD0, CHR 0xB8] @ '' JPEG): ''"

text \<open>\<^verbatim>\<open>txt_create_failed\<close>: in English, \<^emph>\<open>could not create the output file\<close>.\<close>

definition txt_create_failed :: string where
  "txt_create_failed =
   [CHR 0xD0, CHR 0xBD, CHR 0xD0, CHR 0xB5, CHR 0x20, CHR 0xD1, CHR 0x83, CHR 0xD0,
   CHR 0xB4, CHR 0xD0, CHR 0xB0, CHR 0xD0, CHR 0xBB, CHR 0xD0, CHR 0xBE, CHR 0xD1, CHR 0x81,
   CHR 0xD1, CHR 0x8C, CHR 0x20, CHR 0xD1, CHR 0x81, CHR 0xD0, CHR 0xBE, CHR 0xD0, CHR 0xB7,
   CHR 0xD0, CHR 0xB4, CHR 0xD0, CHR 0xB0, CHR 0xD1, CHR 0x82, CHR 0xD1, CHR 0x8C, CHR 0x20,
   CHR 0xD0, CHR 0xB2, CHR 0xD1, CHR 0x8B, CHR 0xD1, CHR 0x85, CHR 0xD0, CHR 0xBE, CHR 0xD0,
   CHR 0xB4, CHR 0xD0, CHR 0xBD, CHR 0xD0, CHR 0xBE, CHR 0xD0, CHR 0xB9, CHR 0x20, CHR 0xD1,
   CHR 0x84, CHR 0xD0, CHR 0xB0, CHR 0xD0, CHR 0xB9, CHR 0xD0, CHR 0xBB] @ '': ''"

text \<open>\<^verbatim>\<open>txt_encode_failed\<close>: in English, \<^emph>\<open>could not encode PNG\<close>.\<close>

definition txt_encode_failed :: string where
  "txt_encode_failed =
   [CHR 0xD0, CHR 0xBD, CHR 0xD0, CHR 0xB5, CHR 0x20, CHR 0xD1, CHR 0x83, CHR 0xD0,
   CHR 0xB4, CHR 0xD0, CHR 0xB0, CHR 0xD0, CHR 0xBB, CHR 0xD0, CHR 0xBE, CHR 0xD1, CHR 0x81,
   CHR 0xD1, CHR 0x8C, CHR 0x20, CHR 0xD0, CHR 0xB7, CHR 0xD0, CHR 0xB0, CHR 0xD0, CHR 0xBA,
   CHR 0xD0, CHR 0xBE, CHR 0xD0, CHR 0xB4, CHR 0xD0, CHR 0xB8, CHR 0xD1, CHR 0x80, CHR 0xD0,
   CHR 0xBE, CHR 0xD0, CHR 0xB2, CHR 0xD0, CHR 0xB0, CHR 0xD1, CHR 0x82, CHR 0xD1, CHR 0x8C]
   @ '' PNG: ''"

text \<open>\<^verbatim>\<open>txt_sync_failed\<close>: in English, \<^emph>\<open>could not synchronise the file\<close>.\<close>

definition txt_sync_failed :: string where
  "txt_sync_failed =
   [CHR 0xD0, CHR 0xBD, CHR 0xD0, CHR 0xB5, CHR 0x20, CHR 0xD1, CHR 0x83, CHR 0xD0,
   CHR 0xB4, CHR 0xD0, CHR 0xB0, CHR 0xD0, CHR 0xBB, CHR 0xD0, CHR 0xBE, CHR 0xD1, CHR 0x81,
   CHR 0xD1, CHR 0x8C, CHR 0x20, CHR 0xD1, CHR 0x81, CHR 0xD0, CHR 0xB8, CHR 0xD0, CHR 0xBD,
   CHR 0xD1, CHR 0x85, CHR 0xD1, CHR 0x80, CHR 0xD0, CHR 0xBE, CHR 0xD0, CHR 0xBD, CHR 0xD0,
   CHR 0xB8, CHR 0xD0, CHR 0xB7, CHR 0xD0, CHR 0xB8, CHR 0xD1, CHR 0x80, CHR 0xD0, CHR 0xBE,
   CHR 0xD0, CHR 0xB2, CHR 0xD0, CHR 0xB0, CHR 0xD1, CHR 0x82, CHR 0xD1, CHR 0x8C, CHR 0x20,
   CHR 0xD1, CHR 0x84, CHR 0xD0, CHR 0xB0, CHR 0xD0, CHR 0xB9, CHR 0xD0, CHR 0xBB] @ '': ''"

text \<open>\<^verbatim>\<open>txt_readdir_failed\<close>: in English, \<^emph>\<open>could not read the directory\<close>.\<close>

definition txt_readdir_failed :: string where
  "txt_readdir_failed =
   [CHR 0xD0, CHR 0xBD, CHR 0xD0, CHR 0xB5, CHR 0x20, CHR 0xD1, CHR 0x83, CHR 0xD0,
   CHR 0xB4, CHR 0xD0, CHR 0xB0, CHR 0xD0, CHR 0xBB, CHR 0xD0, CHR 0xBE, CHR 0xD1, CHR 0x81,
   CHR 0xD1, CHR 0x8C, CHR 0x20, CHR 0xD0, CHR 0xBF, CHR 0xD1, CHR 0x80, CHR 0xD0, CHR 0xBE,
   CHR 0xD1, CHR 0x87, CHR 0xD0, CHR 0xB8, CHR 0xD1, CHR 0x82, CHR 0xD0, CHR 0xB0, CHR 0xD1,
   CHR 0x82, CHR 0xD1, CHR 0x8C, CHR 0x20, CHR 0xD0, CHR 0xB4, CHR 0xD0, CHR 0xB8, CHR 0xD1,
   CHR 0x80, CHR 0xD0, CHR 0xB5, CHR 0xD0, CHR 0xBA, CHR 0xD1, CHR 0x82, CHR 0xD0, CHR 0xBE,
   CHR 0xD1, CHR 0x80, CHR 0xD0, CHR 0xB8, CHR 0xD1, CHR 0x8E] @ '': ''"

text \<open>\<^verbatim>\<open>txt_mkdir_failed\<close>: in English, \<^emph>\<open>could not create the output directory\<close>.\<close>

definition txt_mkdir_failed :: string where
  "txt_mkdir_failed =
   [CHR 0xD0, CHR 0xBD, CHR 0xD0, CHR 0xB5, CHR 0x20, CHR 0xD1, CHR 0x83, CHR 0xD0,
   CHR 0xB4, CHR 0xD0, CHR 0xB0, CHR 0xD0, CHR 0xBB, CHR 0xD0, CHR 0xBE, CHR 0xD1, CHR 0x81,
   CHR 0xD1, CHR 0x8C, CHR 0x20, CHR 0xD1, CHR 0x81, CHR 0xD0, CHR 0xBE, CHR 0xD0, CHR 0xB7,
   CHR 0xD0, CHR 0xB4, CHR 0xD0, CHR 0xB0, CHR 0xD1, CHR 0x82, CHR 0xD1, CHR 0x8C, CHR 0x20,
   CHR 0xD0, CHR 0xB2, CHR 0xD1, CHR 0x8B, CHR 0xD1, CHR 0x85, CHR 0xD0, CHR 0xBE, CHR 0xD0,
   CHR 0xB4, CHR 0xD0, CHR 0xBD, CHR 0xD1, CHR 0x83, CHR 0xD1, CHR 0x8E, CHR 0x20, CHR 0xD0,
   CHR 0xB4, CHR 0xD0, CHR 0xB8, CHR 0xD1, CHR 0x80, CHR 0xD0, CHR 0xB5, CHR 0xD0, CHR 0xBA,
   CHR 0xD1, CHR 0x82, CHR 0xD0, CHR 0xBE, CHR 0xD1, CHR 0x80, CHR 0xD0, CHR 0xB8, CHR 0xD1,
   CHR 0x8E] @ '': ''"

text \<open>\<^verbatim>\<open>txt_none_found\<close>: in English, \<^emph>\<open>no WebP files found in the directory\<close>.\<close>

definition txt_none_found :: string where
  "txt_none_found =
   ''WebP '' @ [CHR 0xD1, CHR 0x84, CHR 0xD0, CHR 0xB0, CHR 0xD0, CHR 0xB9, CHR 0xD0,
   CHR 0xBB, CHR 0xD1, CHR 0x8B, CHR 0x20, CHR 0xD0, CHR 0xBD, CHR 0xD0, CHR 0xB5, CHR 0x20,
   CHR 0xD0, CHR 0xBD, CHR 0xD0, CHR 0xB0, CHR 0xD0, CHR 0xB9, CHR 0xD0, CHR 0xB4, CHR 0xD0,
   CHR 0xB5, CHR 0xD0, CHR 0xBD, CHR 0xD1, CHR 0x8B, CHR 0x20, CHR 0xD0, CHR 0xB2, CHR 0x20,
   CHR 0xD0, CHR 0xB4, CHR 0xD0, CHR 0xB8, CHR 0xD1, CHR 0x80, CHR 0xD0, CHR 0xB5, CHR 0xD0,
   CHR 0xBA, CHR 0xD1, CHR 0x82, CHR 0xD0, CHR 0xBE, CHR 0xD1, CHR 0x80, CHR 0xD0, CHR 0xB8,
   CHR 0xD0, CHR 0xB8] @ '': ''"

text \<open>\<^verbatim>\<open>txt_found\<close>: in English, \<^emph>\<open>WebP files found\<close>.\<close>

definition txt_found :: string where
  "txt_found =
   [CHR 0xD0, CHR 0x9D, CHR 0xD0, CHR 0xB0, CHR 0xD0, CHR 0xB9, CHR 0xD0, CHR 0xB4,
   CHR 0xD0, CHR 0xB5, CHR 0xD0, CHR 0xBD, CHR 0xD0, CHR 0xBE] @ '' WebP '' @ [CHR 0xD1,
   CHR 0x84, CHR 0xD0, CHR 0xB0, CHR 0xD0, CHR 0xB9, CHR 0xD0, CHR 0xBB, CHR 0xD0, CHR 0xBE,
   CHR 0xD0, CHR 0xB2] @ '': ''"

text \<open>\<^verbatim>\<open>txt_convert_error\<close>: in English, \<^emph>\<open>error while converting\<close>.\<close>

definition txt_convert_error :: string where
  "txt_convert_error =
   [CHR 0xD0, CHR 0x9E, CHR 0xD1, CHR 0x88, CHR 0xD0, CHR 0xB8, CHR 0xD0, CHR 0xB1,
   CHR 0xD0, CHR 0xBA, CHR 0xD0, CHR 0xB0, CHR 0x20, CHR 0xD0, CHR 0xBF, CHR 0xD1, CHR 0x80,
   CHR 0xD0, CHR 0xB8, CHR 0x20, CHR 0xD0, CHR 0xBA, CHR 0xD0, CHR 0xBE, CHR 0xD0, CHR 0xBD,
   CHR 0xD0, CHR 0xB2, CHR 0xD0, CHR 0xB5, CHR 0xD1, CHR 0x80, CHR 0xD1, CHR 0x82, CHR 0xD0,
   CHR 0xB0, CHR 0xD1, CHR 0x86, CHR 0xD0, CHR 0xB8, CHR 0xD0, CHR 0xB8] @ '' ''"

text \<open>\<^verbatim>\<open>txt_output_file\<close>: in English, \<^emph>\<open>output file\<close>.\<close>

definition txt_output_file :: string where
  "txt_output_file =
   [CHR 0xD0, CHR 0x92, CHR 0xD1, CHR 0x8B, CHR 0xD1, CHR 0x85, CHR 0xD0, CHR 0xBE,
   CHR 0xD0, CHR 0xB4, CHR 0xD0, CHR 0xBD, CHR 0xD0, CHR 0xBE, CHR 0xD0, CHR 0xB9, CHR 0x20,
   CHR 0xD1, CHR 0x84, CHR 0xD0, CHR 0xB0, CHR 0xD0, CHR 0xB9, CHR 0xD0, CHR 0xBB] @ '' ''"

text \<open>\<^verbatim>\<open>txt_not_found_after\<close>: in English, \<^emph>\<open>not found after converting\<close>.\<close>

definition txt_not_found_after :: string where
  "txt_not_found_after =
   '' '' @ [CHR 0xD0, CHR 0xBD, CHR 0xD0, CHR 0xB5, CHR 0x20, CHR 0xD0, CHR 0xBD, CHR 0xD0,
   CHR 0xB0, CHR 0xD0, CHR 0xB9, CHR 0xD0, CHR 0xB4, CHR 0xD0, CHR 0xB5, CHR 0xD0, CHR 0xBD,
   CHR 0x20, CHR 0xD0, CHR 0xBF, CHR 0xD0, CHR 0xBE, CHR 0xD1, CHR 0x81, CHR 0xD0, CHR 0xBB,
   CHR 0xD0, CHR 0xB5, CHR 0x20, CHR 0xD0, CHR 0xBA, CHR 0xD0, CHR 0xBE, CHR 0xD0, CHR 0xBD,
   CHR 0xD0, CHR 0xB2, CHR 0xD0, CHR 0xB5, CHR 0xD1, CHR 0x80, CHR 0xD1, CHR 0x82, CHR 0xD0,
   CHR 0xB0, CHR 0xD1, CHR 0x86, CHR 0xD0, CHR 0xB8, CHR 0xD0, CHR 0xB8] @ '' ''"

text \<open>\<^verbatim>\<open>txt_empty_after\<close>: in English, \<^emph>\<open>empty after converting\<close>.\<close>

definition txt_empty_after :: string where
  "txt_empty_after =
   '' '' @ [CHR 0xD0, CHR 0xBF, CHR 0xD1, CHR 0x83, CHR 0xD1, CHR 0x81, CHR 0xD1, CHR 0x82,
   CHR 0xD0, CHR 0xBE, CHR 0xD0, CHR 0xB9, CHR 0x20, CHR 0xD0, CHR 0xBF, CHR 0xD0, CHR 0xBE,
   CHR 0xD1, CHR 0x81, CHR 0xD0, CHR 0xBB, CHR 0xD0, CHR 0xB5, CHR 0x20, CHR 0xD0, CHR 0xBA,
   CHR 0xD0, CHR 0xBE, CHR 0xD0, CHR 0xBD, CHR 0xD0, CHR 0xB2, CHR 0xD0, CHR 0xB5, CHR 0xD1,
   CHR 0x80, CHR 0xD1, CHR 0x82, CHR 0xD0, CHR 0xB0, CHR 0xD1, CHR 0x86, CHR 0xD0, CHR 0xB8,
   CHR 0xD0, CHR 0xB8] @ '' ''"

text \<open>\<^verbatim>\<open>txt_error\<close>: in English, \<^emph>\<open>error\<close>.\<close>

definition txt_error :: string where
  "txt_error =
   [CHR 0xD0, CHR 0x9E, CHR 0xD1, CHR 0x88, CHR 0xD0, CHR 0xB8, CHR 0xD0, CHR 0xB1,
   CHR 0xD0, CHR 0xBA, CHR 0xD0, CHR 0xB0] @ '': ''"

text \<open>\<^verbatim>\<open>txt_converted\<close>: in English, \<^emph>\<open>(check mark) converted\<close>.\<close>

definition txt_converted :: string where
  "txt_converted =
   [CHR 0xE2, CHR 0x9C, CHR 0x93, CHR 0x20, CHR 0xD0, CHR 0x9A, CHR 0xD0, CHR 0xBE,
   CHR 0xD0, CHR 0xBD, CHR 0xD0, CHR 0xB2, CHR 0xD0, CHR 0xB5, CHR 0xD1, CHR 0x80, CHR 0xD1,
   CHR 0x82, CHR 0xD0, CHR 0xB8, CHR 0xD1, CHR 0x80, CHR 0xD0, CHR 0xBE, CHR 0xD0, CHR 0xB2,
   CHR 0xD0, CHR 0xB0, CHR 0xD0, CHR 0xBD, CHR 0xD0, CHR 0xBE] @ '': ''"

text \<open>\<^verbatim>\<open>txt_report_warning\<close>: in English, \<^emph>\<open>warning: could not create the report file\<close>.\<close>

definition txt_report_warning :: string where
  "txt_report_warning =
   [CHR 0xD0, CHR 0x9F, CHR 0xD1, CHR 0x80, CHR 0xD0, CHR 0xB5, CHR 0xD0, CHR 0xB4,
   CHR 0xD1, CHR 0x83, CHR 0xD0, CHR 0xBF, CHR 0xD1, CHR 0x80, CHR 0xD0, CHR 0xB5, CHR 0xD0,
   CHR 0xB6, CHR 0xD0, CHR 0xB4, CHR 0xD0, CHR 0xB5, CHR 0xD0, CHR 0xBD, CHR 0xD0, CHR 0xB8,
   CHR 0xD0, CHR 0xB5] @ '': '' @ [CHR 0xD0, CHR 0xBD, CHR 0xD0, CHR 0xB5, CHR 0x20,
   CHR 0xD1, CHR 0x83, CHR 0xD0, CHR 0xB4, CHR 0xD0, CHR 0xB0, CHR 0xD0, CHR 0xBB, CHR 0xD0,
   CHR 0xBE, CHR 0xD1, CHR 0x81, CHR 0xD1, CHR 0x8C, CHR 0x20, CHR 0xD1, CHR 0x81, CHR 0xD0,
   CHR 0xBE, CHR 0xD0, CHR 0xB7, CHR 0xD0, CHR 0xB4, CHR 0xD0, CHR 0xB0, CHR 0xD1, CHR 0x82,
   CHR 0xD1, CHR 0x8C, CHR 0x20, CHR 0xD1, CHR 0x84, CHR 0xD0, CHR 0xB0, CHR 0xD0, CHR 0xB9,
   CHR 0xD0, CHR 0xBB, CHR 0x20, CHR 0xD0, CHR 0xBE, CHR 0xD1, CHR 0x82, CHR 0xD1, CHR 0x87,
   CHR 0xD0, CHR 0xB5, CHR 0xD1, CHR 0x82, CHR 0xD0, CHR 0xB0] @ '': ''"

text \<open>\<^verbatim>\<open>txt_report_header\<close>: in English, \<^emph>\<open>conversion error report\<close>.\<close>

definition txt_report_header :: string where
  "txt_report_header =
   [CHR 0xD0, CHR 0x9E, CHR 0xD1, CHR 0x82, CHR 0xD1, CHR 0x87, CHR 0xD0, CHR 0xB5,
   CHR 0xD1, CHR 0x82, CHR 0x20, CHR 0xD0, CHR 0xBE, CHR 0xD0, CHR 0xB1, CHR 0x20, CHR 0xD0,
   CHR 0xBE, CHR 0xD1, CHR 0x88, CHR 0xD0, CHR 0xB8, CHR 0xD0, CHR 0xB1, CHR 0xD0, CHR 0xBA,
   CHR 0xD0, CHR 0xB0, CHR 0xD1, CHR 0x85, CHR 0x20, CHR 0xD0, CHR 0xBA, CHR 0xD0, CHR 0xBE,
   CHR 0xD0, CHR 0xBD, CHR 0xD0, CHR 0xB2, CHR 0xD0, CHR 0xB5, CHR 0xD1, CHR 0x80, CHR 0xD1,
   CHR 0x82, CHR 0xD0, CHR 0xB0, CHR 0xD1, CHR 0x86, CHR 0xD0, CHR 0xB8, CHR 0xD0, CHR 0xB8,
   CHR 0x0A]"

definition txt_report_rule :: string where
  "txt_report_rule =
   ''================================'' @ [CHR 0x0A, CHR 0x0A]"

text \<open>\<^verbatim>\<open>txt_total_errors\<close>: in English, \<^emph>\<open>errors in total\<close>.\<close>

definition txt_total_errors :: string where
  "txt_total_errors =
   [CHR 0xD0, CHR 0x92, CHR 0xD1, CHR 0x81, CHR 0xD0, CHR 0xB5, CHR 0xD0, CHR 0xB3,
   CHR 0xD0, CHR 0xBE, CHR 0x20, CHR 0xD0, CHR 0xBE, CHR 0xD1, CHR 0x88, CHR 0xD0, CHR 0xB8,
   CHR 0xD0, CHR 0xB1, CHR 0xD0, CHR 0xBE, CHR 0xD0, CHR 0xBA] @ '': ''"

text \<open>\<^verbatim>\<open>txt_entry_file\<close>: in English, \<^emph>\<open>file\<close>.\<close>

definition txt_entry_file :: string where
  "txt_entry_file =
   ''. '' @ [CHR 0xD0, CHR 0xA4, CHR 0xD0, CHR 0xB0, CHR 0xD0, CHR 0xB9, CHR 0xD0, CHR 0xBB]
   @ '': ''"

text \<open>\<^verbatim>\<open>txt_entry_error\<close>: in English, \<^emph>\<open>error\<close>.\<close>

definition txt_entry_error :: string where
  "txt_entry_error =
   ''   '' @ [CHR 0xD0, CHR 0x9E, CHR 0xD1, CHR 0x88, CHR 0xD0, CHR 0xB8, CHR 0xD0,
   CHR 0xB1, CHR 0xD0, CHR 0xBA, CHR 0xD0, CHR 0xB0] @ '': ''"

text \<open>\<^verbatim>\<open>txt_report_created\<close>: in English, \<^emph>\<open>error report file created\<close>.\<close>

definition txt_report_created :: string where
  "txt_report_created =
   [CHR 0x0A, CHR 0xD0, CHR 0xA4, CHR 0xD0, CHR 0xB0, CHR 0xD0, CHR 0xB9, CHR 0xD0,
   CHR 0xBB, CHR 0x20, CHR 0xD0, CHR 0xBE, CHR 0xD1, CHR 0x82, CHR 0xD1, CHR 0x87, CHR 0xD0,
   CHR 0xB5, CHR 0xD1, CHR 0x82, CHR 0xD0, CHR 0xB0, CHR 0x20, CHR 0xD1, CHR 0x81, CHR 0x20,
   CHR 0xD0, CHR 0xBE, CHR 0xD1, CHR 0x88, CHR 0xD0, CHR 0xB8, CHR 0xD0, CHR 0xB1, CHR 0xD0,
   CHR 0xBA, CHR 0xD0, CHR 0xB0, CHR 0xD0, CHR 0xBC, CHR 0xD0, CHR 0xB8, CHR 0x20, CHR 0xD1,
   CHR 0x81, CHR 0xD0, CHR 0xBE, CHR 0xD0, CHR 0xB7, CHR 0xD0, CHR 0xB4, CHR 0xD0, CHR 0xB0,
   CHR 0xD0, CHR 0xBD] @ '': ''"

text \<open>\<^verbatim>\<open>txt_done\<close>: in English, \<^emph>\<open>conversion finished. Succeeded\<close>.\<close>

definition txt_done :: string where
  "txt_done =
   [CHR 0x0A, CHR 0xD0, CHR 0x9A, CHR 0xD0, CHR 0xBE, CHR 0xD0, CHR 0xBD, CHR 0xD0,
   CHR 0xB2, CHR 0xD0, CHR 0xB5, CHR 0xD1, CHR 0x80, CHR 0xD1, CHR 0x82, CHR 0xD0, CHR 0xB0,
   CHR 0xD1, CHR 0x86, CHR 0xD0, CHR 0xB8, CHR 0xD1, CHR 0x8F, CHR 0x20, CHR 0xD0, CHR 0xB7,
   CHR 0xD0, CHR 0xB0, CHR 0xD0, CHR 0xB2, CHR 0xD0, CHR 0xB5, CHR 0xD1, CHR 0x80, CHR 0xD1,
   CHR 0x88, CHR 0xD0, CHR 0xB5, CHR 0xD0, CHR 0xBD, CHR 0xD0, CHR 0xB0] @ ''. '' @
   [CHR 0xD0, CHR 0xA3, CHR 0xD1, CHR 0x81, CHR 0xD0, CHR 0xBF, CHR 0xD0, CHR 0xB5,
   CHR 0xD1, CHR 0x88, CHR 0xD0, CHR 0xBD, CHR 0xD0, CHR 0xBE] @ '': ''"

text \<open>\<^verbatim>\<open>txt_of\<close>: in English, \<^emph>\<open>out of\<close>.\<close>

definition txt_of :: string where
  "txt_of =
   '' '' @ [CHR 0xD0, CHR 0xB8, CHR 0xD0, CHR 0xB7] @ '' ''"

text \<open>\<^verbatim>\<open>txt_single_ok\<close>: in English, \<^emph>\<open>(check mark) converted successfully\<close>.\<close>

definition txt_single_ok :: string where
  "txt_single_ok =
   [CHR 0xE2, CHR 0x9C, CHR 0x93, CHR 0x20, CHR 0xD0, CHR 0xA3, CHR 0xD1, CHR 0x81,
   CHR 0xD0, CHR 0xBF, CHR 0xD0, CHR 0xB5, CHR 0xD1, CHR 0x88, CHR 0xD0, CHR 0xBD, CHR 0xD0,
   CHR 0xBE, CHR 0x20, CHR 0xD0, CHR 0xBA, CHR 0xD0, CHR 0xBE, CHR 0xD0, CHR 0xBD, CHR 0xD0,
   CHR 0xB2, CHR 0xD0, CHR 0xB5, CHR 0xD1, CHR 0x80, CHR 0xD1, CHR 0x82, CHR 0xD0, CHR 0xB8,
   CHR 0xD1, CHR 0x80, CHR 0xD0, CHR 0xBE, CHR 0xD0, CHR 0xB2, CHR 0xD0, CHR 0xB0, CHR 0xD0,
   CHR 0xBD, CHR 0xD0, CHR 0xBE] @ '': ''"

definition nl :: string where
  "nl = [CHR 0x0A]"

section \<open>The environment: codecs and operating system\<close>

text \<open>
  The codecs are opaque: a decoder maps the bytes of a file to an image or to an error
  message, the PNG encoder writes some bytes to the open destination and returns an error
  message or none. The bytes written before an error are the incomplete file. Every call of
  the operating system whose error the program checks can fail for reasons outside the file
  contents (permissions, a full disk); such a failure is given by the environment, per path.
  \<open>None\<close> is Go's \<^verbatim>\<open>nil\<close> error.

  The operating system resolves a path to a file, and different path texts can name one
  file (a leading \<^verbatim>\<open>./\<close>, a link, letters in another case on a file system that ignores
  case). \<open>fileAt\<close> is this resolution: it gives the file a path names, and two paths name
  the same file exactly when it gives them the same value.
\<close>

type_synonym fileId = string

record dirEntry =
  entryName :: string
  entryIsDir :: bool

record 'img env =
  webpDecode :: "bytes \<Rightarrow> string + 'img"
  jpegDecode :: "bytes \<Rightarrow> string + 'img"
  pngEncode :: "'img \<Rightarrow> path \<Rightarrow> bytes \<times> string option"
  readFault :: "path \<Rightarrow> string option"
  createFault :: "path \<Rightarrow> string option"
  syncFault :: "path \<Rightarrow> string option"
  removeFault :: "path \<Rightarrow> bool"
  readDir :: "path \<Rightarrow> string + dirEntry list"
  mkdirAllFault :: "path \<Rightarrow> string option"
  fileAt :: "path \<Rightarrow> fileId"

text \<open>
  The state the program acts on: the content of every regular file, the two output streams,
  and the sequence of calls made so far. A call on a path acts on the file the path names.
\<close>

datatype call =
    CallReadFile path
  | CallCreate path
  | CallEncode path
  | CallClose path
  | CallRemove path
  | CallSync path
  | CallReadDir path
  | CallMkdirAll path
  | CallStat path

record world =
  files :: "fileId \<rightharpoonup> bytes"
  stdout :: string
  stderr :: string
  trace :: "call list"

definition called :: "call \<Rightarrow> world \<Rightarrow> world" where
  "called c w = w\<lparr>trace := trace w @ [c]\<rparr>"

text \<open>The calls made on the way from \<open>w\<close> to \<open>w'\<close>.\<close>

definition newCalls :: "world \<Rightarrow> world \<Rightarrow> call list" where
  "newCalls w w' = drop (length (trace w)) (trace w')"

definition printOut :: "string \<Rightarrow> world \<Rightarrow> world" where
  "printOut s w = w\<lparr>stdout := stdout w @ s\<rparr>"

definition printErr :: "string \<Rightarrow> world \<Rightarrow> world" where
  "printErr s w = w\<lparr>stderr := stderr w @ s\<rparr>"

text \<open>\<^verbatim>\<open>os.ReadFile\<close>: the whole content, or an error.\<close>

definition os_ReadFile :: "'img env \<Rightarrow> path \<Rightarrow> world \<Rightarrow> (string + bytes) \<times> world" where
  "os_ReadFile env p w =
     (case readFault env p of
        Some e \<Rightarrow> (Inl e, called (CallReadFile p) w)
      | None \<Rightarrow>
          (case files w (fileAt env p) of
             None \<Rightarrow> (Inl (''open '' @ p @ '': no such file or directory''),
                       called (CallReadFile p) w)
           | Some data \<Rightarrow> (Inr data, called (CallReadFile p) w)))"

text \<open>\<^verbatim>\<open>os.Create\<close>: creates the file, or truncates the one that exists.\<close>

definition os_Create :: "'img env \<Rightarrow> path \<Rightarrow> world \<Rightarrow> string option \<times> world" where
  "os_Create env p w =
     (case createFault env p of
        Some e \<Rightarrow> (Some e, called (CallCreate p) w)
      | None \<Rightarrow> (None, called (CallCreate p) (w\<lparr>files := (files w)(fileAt env p \<mapsto> [])\<rparr>)))"

text \<open>A write on an open file appends to what the file holds.\<close>

definition writeTo :: "'img env \<Rightarrow> path \<Rightarrow> bytes \<Rightarrow> world \<Rightarrow> world" where
  "writeTo env p bs w =
     w\<lparr>files := (files w)(fileAt env p \<mapsto>
                   (case files w (fileAt env p) of None \<Rightarrow> bs | Some old \<Rightarrow> old @ bs))\<rparr>"

text \<open>\<^verbatim>\<open>png.Encode\<close> on the open destination.\<close>

definition png_Encode :: "'img env \<Rightarrow> 'img \<Rightarrow> path \<Rightarrow> world \<Rightarrow> string option \<times> world" where
  "png_Encode env img p w =
     (case pngEncode env img p of
        (bs, r) \<Rightarrow> (r, called (CallEncode p) (writeTo env p bs w)))"

definition os_Close :: "path \<Rightarrow> world \<Rightarrow> world" where
  "os_Close p w = called (CallClose p) w"

text \<open>\<^verbatim>\<open>os.Remove\<close>; the program never looks at its error.\<close>

definition os_Remove :: "'img env \<Rightarrow> path \<Rightarrow> world \<Rightarrow> world" where
  "os_Remove env p w =
     (if removeFault env p then called (CallRemove p) w
      else called (CallRemove p) (w\<lparr>files := (files w)(fileAt env p := None)\<rparr>))"

definition os_Sync :: "'img env \<Rightarrow> path \<Rightarrow> world \<Rightarrow> string option \<times> world" where
  "os_Sync env p w = (syncFault env p, called (CallSync p) w)"

text \<open>\<^verbatim>\<open>os.Stat\<close>: the size of the file, or an error when there is none.\<close>

definition os_Stat :: "'img env \<Rightarrow> path \<Rightarrow> world \<Rightarrow> nat option \<times> world" where
  "os_Stat env p w =
     (case files w (fileAt env p) of
        None \<Rightarrow> (None, called (CallStat p) w)
      | Some data \<Rightarrow> (Some (length data), called (CallStat p) w))"

definition os_ReadDir :: "'img env \<Rightarrow> path \<Rightarrow> world \<Rightarrow> (string + dirEntry list) \<times> world" where
  "os_ReadDir env p w = (readDir env p, called (CallReadDir p) w)"

definition os_MkdirAll :: "'img env \<Rightarrow> path \<Rightarrow> world \<Rightarrow> string option \<times> world" where
  "os_MkdirAll env p w = (mkdirAllFault env p, called (CallMkdirAll p) w)"

section \<open>The single-file converter\<close>

text \<open>
  The five error returns of \<^verbatim>\<open>convertWebPToPNG\<close>, each wrapping the message of the error
  that caused it; \<open>errorText\<close> is the text \<^verbatim>\<open>fmt.Errorf\<close> builds.
\<close>

datatype convError =
    ReadFailed string
  | DecodeFailed string
  | CreateFailed string
  | EncodeFailed string
  | SyncFailed string

fun errorText :: "convError \<Rightarrow> string" where
  "errorText (ReadFailed e) = txt_read_failed @ e"
| "errorText (DecodeFailed e) = txt_decode_failed @ e"
| "errorText (CreateFailed e) = txt_create_failed @ e"
| "errorText (EncodeFailed e) = txt_encode_failed @ e"
| "errorText (SyncFailed e) = txt_sync_failed @ e"

text \<open>
  The decoding block of \<^verbatim>\<open>convertWebPToPNG\<close>: WebP first, JPEG on the same bytes when
  that fails. The variable \<^verbatim>\<open>err\<close> is assigned by the WebP decode and again by the JPEG
  decode, so the error left after both failed is the JPEG one.
\<close>

definition decodeImage :: "'img env \<Rightarrow> bytes \<Rightarrow> string + 'img" where
  "decodeImage env inputData =
     (case webpDecode env inputData of
        Inr img \<Rightarrow> Inr img
      | Inl _ \<Rightarrow>
          (case jpegDecode env inputData of
             Inr img \<Rightarrow> Inr img
           | Inl err \<Rightarrow> Inl err))"

text \<open>
  \<^verbatim>\<open>convertWebPToPNG\<close>. The deferred \<^verbatim>\<open>Close\<close> runs on every return after the destination
  was opened.
\<close>

definition convertWebPToPNG ::
    "'img env \<Rightarrow> path \<Rightarrow> path \<Rightarrow> world \<Rightarrow> convError option \<times> world" where
  "convertWebPToPNG env inputPath outputPath w0 =
     (case os_ReadFile env inputPath w0 of
        (Inl e, w1) \<Rightarrow> (Some (ReadFailed e), w1)
      | (Inr inputData, w1) \<Rightarrow>
          (case decodeImage env inputData of
             Inl e \<Rightarrow> (Some (DecodeFailed e), w1)
           | Inr img \<Rightarrow>
               (case os_Create env outputPath w1 of
                  (Some e, w2) \<Rightarrow> (Some (CreateFailed e), w2)
                | (None, w2) \<Rightarrow>
                    (case png_Encode env img outputPath w2 of
                       (Some e, w3) \<Rightarrow>
                         (Some (EncodeFailed e),
                          os_Close outputPath
                            (os_Remove env outputPath (os_Close outputPath w3)))
                     | (None, w3) \<Rightarrow>
                         (case os_Sync env outputPath w3 of
                            (Some e, w4) \<Rightarrow> (Some (SyncFailed e), os_Close outputPath w4)
                          | (None, w4) \<Rightarrow> (None, os_Close outputPath w4))))))"

section \<open>The directory batch processor\<close>

text \<open>The first loop of \<^verbatim>\<open>convertDirectory\<close>: the names it appends to \<^verbatim>\<open>webpFiles\<close>.\<close>

fun selectWebP :: "dirEntry list \<Rightarrow> string list \<Rightarrow> string list" where
  "selectWebP [] webpFiles = webpFiles"
| "selectWebP (entry # entries) webpFiles =
     (if \<not> entryIsDir entry then
        (let name = toLower (entryName entry) in
         if hasSuffix name ''.webp''
         then selectWebP entries (webpFiles @ [entryName entry])
         else selectWebP entries webpFiles)
      else selectWebP entries webpFiles)"

text \<open>The local struct \<^verbatim>\<open>conversionError\<close> and the two variables the main loop updates.\<close>

record conversionError =
  fileName :: string
  errorMsg :: string

record tally =
  errors :: "conversionError list"
  successCount :: nat

definition addError :: "string \<Rightarrow> string \<Rightarrow> tally \<Rightarrow> tally" where
  "addError name msg t = t\<lparr>errors := errors t @ [\<lparr>fileName = name, errorMsg = msg\<rparr>]\<rparr>"

text \<open>The paths the loop body computes for one file.\<close>

definition pngNameOf :: "string \<Rightarrow> string" where
  "pngNameOf webpFile = trimSuffix webpFile (ext webpFile) @ ''.png''"

definition outputPathOf :: "path \<Rightarrow> path \<Rightarrow> string \<Rightarrow> path" where
  "outputPathOf inputDir outputDir webpFile =
     (if outputDir \<noteq> [] then join outputDir (pngNameOf webpFile)
      else join inputDir (pngNameOf webpFile))"

text \<open>
  The check of the destination after a conversion that returned no error: the rest of the
  loop body from \<^verbatim>\<open>os.Stat\<close> on.
\<close>

definition verifyOutput ::
    "'img env \<Rightarrow> path \<Rightarrow> string \<Rightarrow> tally \<times> world \<Rightarrow> tally \<times> world" where
  "verifyOutput env outputPath webpFile tw =
     (case tw of (t, w1) \<Rightarrow>
        (case os_Stat env outputPath w1 of
           (None, w2) \<Rightarrow>
             (let msg = txt_output_file @ outputPath @ txt_not_found_after @ webpFile in
              (addError webpFile msg t, printErr (txt_error @ msg @ nl) w2))
         | (Some outputSize, w2) \<Rightarrow>
             if outputSize = 0 then
               (let msg = txt_output_file @ outputPath @ txt_empty_after @ webpFile in
                (addError webpFile msg t,
                 os_Remove env outputPath (printErr (txt_error @ msg @ nl) w2)))
             else
               (t\<lparr>successCount := successCount t + 1\<rparr>,
                printOut (txt_converted @ webpFile @ '' -> '' @ pngNameOf webpFile @ nl) w2)))"

text \<open>One iteration of the main loop.\<close>

definition processFile ::
    "'img env \<Rightarrow> path \<Rightarrow> path \<Rightarrow> string \<Rightarrow> tally \<times> world \<Rightarrow> tally \<times> world" where
  "processFile env inputDir outputDir webpFile tw =
     (case tw of (t, w) \<Rightarrow>
        (case convertWebPToPNG env (join inputDir webpFile)
                (outputPathOf inputDir outputDir webpFile) w of
           (Some err, w1) \<Rightarrow>
             (let msg = txt_convert_error @ webpFile @ '': '' @ errorText err in
              (addError webpFile msg t, printErr (msg @ nl) w1))
         | (None, w1) \<Rightarrow>
             verifyOutput env (outputPathOf inputDir outputDir webpFile) webpFile (t, w1)))"

fun processFiles ::
    "'img env \<Rightarrow> path \<Rightarrow> path \<Rightarrow> string list \<Rightarrow> tally \<times> world \<Rightarrow> tally \<times> world" where
  "processFiles env inputDir outputDir [] tw = tw"
| "processFiles env inputDir outputDir (webpFile # rest) tw =
     processFiles env inputDir outputDir rest (processFile env inputDir outputDir webpFile tw)"

text \<open>The report: the loop over the recorded errors, entry \<open>i\<close> being numbered \<open>i + 1\<close>.\<close>

fun writeEntries ::
    "'img env \<Rightarrow> path \<Rightarrow> nat \<Rightarrow> conversionError list \<Rightarrow> world \<Rightarrow> world" where
  "writeEntries env reportPath i [] w = w"
| "writeEntries env reportPath i (convErr # rest) w =
     writeEntries env reportPath (i + 1) rest
       (writeTo env reportPath (txt_entry_error @ errorMsg convErr @ nl @ nl)
          (writeTo env reportPath
             (itoa (i + 1) @ txt_entry_file @ fileName convErr @ nl) w))"

text \<open>
  The report block. It returns the path of the report when the file was opened: its
  \<^verbatim>\<open>Close\<close> is deferred to the return of \<^verbatim>\<open>convertDirectory\<close>.
\<close>

definition writeReport ::
    "'img env \<Rightarrow> path \<Rightarrow> path \<Rightarrow> conversionError list \<Rightarrow> world \<Rightarrow> path option \<times> world" where
  "writeReport env inputDir outputDir errs w =
     (let reportDir = (if outputDir = [] then inputDir else outputDir);
          reportPath = join reportDir ''conversion_errors.txt''
      in case os_Create env reportPath w of
           (Some e, w1) \<Rightarrow> (None, printErr (txt_report_warning @ e @ nl) w1)
         | (None, w1) \<Rightarrow>
             (Some reportPath,
              printOut (txt_report_created @ reportPath @ nl)
                (writeEntries env reportPath 0 errs
                   (writeTo env reportPath (txt_total_errors @ itoa (length errs) @ nl @ nl)
                      (writeTo env reportPath txt_report_rule
                         (writeTo env reportPath txt_report_header w1))))))"

text \<open>
  The end of \<^verbatim>\<open>convertDirectory\<close>, after the main loop: the report when there are
  errors, the summary, and the deferred \<^verbatim>\<open>Close\<close> of the report.
\<close>

definition finishBatch ::
    "'img env \<Rightarrow> path \<Rightarrow> path \<Rightarrow> nat \<Rightarrow> tally \<times> world \<Rightarrow> world" where
  "finishBatch env inputDir outputDir totalFiles tw =
     (case tw of (t, w3) \<Rightarrow>
        (case (if length (errors t) > 0
               then writeReport env inputDir outputDir (errors t) w3
               else (None, w3)) of
           (deferred, w4) \<Rightarrow>
             (let w5 = printOut (txt_done @ itoa (successCount t) @ txt_of @
                                 itoa totalFiles @ nl) w4
              in (case deferred of
                    None \<Rightarrow> w5
                  | Some reportPath \<Rightarrow> os_Close reportPath w5))))"

text \<open>\<^verbatim>\<open>convertDirectory\<close>; its result is the text of the error it returns, if any.\<close>

definition convertDirectory ::
    "'img env \<Rightarrow> path \<Rightarrow> path \<Rightarrow> world \<Rightarrow> string option \<times> world" where
  "convertDirectory env inputDir outputDir w0 =
     (case os_ReadDir env inputDir w0 of
        (Inl e, w1) \<Rightarrow> (Some (txt_readdir_failed @ e), w1)
      | (Inr entries, w1) \<Rightarrow>
          (let webpFiles = selectWebP entries [] in
           if length webpFiles = 0
           then (None, printOut (txt_none_found @ inputDir @ nl) w1)
           else
             (case (if outputDir \<noteq> [] \<and> outputDir \<noteq> inputDir
                    then os_MkdirAll env outputDir
                           (printOut (txt_found @ itoa (length webpFiles) @ nl) w1)
                    else (None, printOut (txt_found @ itoa (length webpFiles) @ nl) w1)) of
                (Some e, w2) \<Rightarrow> (Some (txt_mkdir_failed @ e), w2)
              | (None, w2) \<Rightarrow>
                  (None,
                   finishBatch env inputDir outputDir (length webpFiles)
                     (processFiles env inputDir outputDir webpFiles
                        (\<lparr>errors = [], successCount = 0\<rparr>, w2))))))"

section \<open>The single-file branch of \<^verbatim>\<open>main\<close>\<close>

text \<open>
  The output path \<^verbatim>\<open>main\<close> passes to the converter for an input that is not a directory:
  the second argument, or, when it is omitted (the empty string), the path derived from the
  input.
\<close>

definition defaultOutput :: "path \<Rightarrow> path \<Rightarrow> path" where
  "defaultOutput input output =
     (if output = [] then trimSuffix input (ext input) @ ''.png'' else output)"

section \<open>Notions used in the statements\<close>

text \<open>
  A name ends in the extension \<^verbatim>\<open>.webp\<close>, in any mix of upper and lower case: it is some
  stem followed by a dot and the four letters, each in either case.
\<close>

definition endsInWebpExtension :: "string \<Rightarrow> bool" where
  "endsInWebpExtension name \<longleftrightarrow>
     (\<exists>stem c1 c2 c3 c4.
        name = stem @ [CHR ''.'', c1, c2, c3, c4] \<and>
        (c1 = CHR ''w'' \<or> c1 = CHR ''W'') \<and> (c2 = CHR ''e'' \<or> c2 = CHR ''E'') \<and>
        (c3 = CHR ''b'' \<or> c3 = CHR ''B'') \<and> (c4 = CHR ''p'' \<or> c4 = CHR ''P''))"

text \<open>
  A plain file name, as a directory listing gives it: not empty, not one of the two special
  names, and without a separator.
\<close>

definition plainName :: "string \<Rightarrow> bool" where
  "plainName n \<longleftrightarrow> n \<noteq> [] \<and> n \<noteq> ''.'' \<and> n \<noteq> ''..'' \<and> CHR ''/'' \<notin> set n"

text \<open>
  The elements that \<open>clean\<close> keeps between slashes: none is empty, none is a single dot,
  none holds a slash.
\<close>

definition keptElems :: "string list \<Rightarrow> bool" where
  "keptElems st \<longleftrightarrow> (\<forall>e \<in> set st. e \<noteq> [] \<and> e \<noteq> ''.'' \<and> CHR ''/'' \<notin> set e)"

text \<open>The entries of a directory that are eligible: not directories, named as above.\<close>

definition eligible :: "dirEntry \<Rightarrow> bool" where
  "eligible entry \<longleftrightarrow> \<not> entryIsDir entry \<and> endsInWebpExtension (entryName entry)"

text \<open>
  The text of the report for a list of failures: the header, the number of failures, and one
  numbered entry for each failure, the first being numbered 1.
\<close>

definition reportEntry :: "nat \<times> conversionError \<Rightarrow> string" where
  "reportEntry ie =
     itoa (fst ie + 1) @ txt_entry_file @ fileName (snd ie) @ nl @
     txt_entry_error @ errorMsg (snd ie) @ nl @ nl"

definition reportText :: "conversionError list \<Rightarrow> string" where
  "reportText errs =
     txt_report_header @ txt_report_rule @
     txt_total_errors @ itoa (length errs) @ nl @ nl @
     concat (map reportEntry (enumerate 0 errs))"

text \<open>The files read and the directories listed by a sequence of calls.\<close>

fun readFilePaths :: "call list \<Rightarrow> path list" where
  "readFilePaths [] = []"
| "readFilePaths (CallReadFile p # cs) = p # readFilePaths cs"
| "readFilePaths (c # cs) = readFilePaths cs"

fun readDirPaths :: "call list \<Rightarrow> path list" where
  "readDirPaths [] = []"
| "readDirPaths (CallReadDir p # cs) = p # readDirPaths cs"
| "readDirPaths (c # cs) = readDirPaths cs"

text \<open>
  The path of the report: the file \<^verbatim>\<open>conversion_errors.txt\<close> in the output directory, or in
  the input directory when no output directory is given.
\<close>

definition reportPathOf :: "path \<Rightarrow> path \<Rightarrow> path" where
  "reportPathOf inputDir outputDir =
     join (if outputDir = [] then inputDir else outputDir) ''conversion_errors.txt''"

text \<open>
  The state in which the main loop starts: the directory was listed, the number of files
  found was printed and, when an output directory different from the input directory is
  given, it was created.
\<close>

definition loopStart :: "path \<Rightarrow> path \<Rightarrow> nat \<Rightarrow> world \<Rightarrow> world" where
  "loopStart inputDir outputDir found w =
     (if outputDir \<noteq> [] \<and> outputDir \<noteq> inputDir
      then called (CallMkdirAll outputDir)
             (printOut (txt_found @ itoa found @ nl) (called (CallReadDir inputDir) w))
      else printOut (txt_found @ itoa found @ nl) (called (CallReadDir inputDir) w))"

section \<open>A concrete environment\<close>

text \<open>
  An environment to run the definitions on. An image is the text after the signature of its
  format; the encoder writes a signature and the image, and writes nothing at all for the
  empty image while reporting no error. No call of the operating system fails, and every
  path names a file of its own.
\<close>

definition demoEntries :: "dirEntry list" where
  "demoEntries =
     [\<lparr>entryName = ''a.webp'', entryIsDir = False\<rparr>,
      \<lparr>entryName = ''b.WEBP'', entryIsDir = False\<rparr>,
      \<lparr>entryName = ''broken.webp'', entryIsDir = False\<rparr>,
      \<lparr>entryName = ''e.webp'', entryIsDir = False\<rparr>,
      \<lparr>entryName = ''notes.txt'', entryIsDir = False\<rparr>,
      \<lparr>entryName = ''old.webp'', entryIsDir = True\<rparr>]"

definition demoEnv :: "string env" where
  "demoEnv =
     \<lparr>webpDecode = (\<lambda>d. if take 4 d = ''RIFF'' then Inr (drop 4 d)
                        else Inl ''riff: missing RIFF chunk header''),
      jpegDecode = (\<lambda>d. if take 2 d = [CHR 0xFF, CHR 0xD8] then Inr (drop 2 d)
                        else Inl ''invalid JPEG format: missing SOI marker''),
      pngEncode = (\<lambda>img p. if img = [] then ([], None) else (CHR 0x89 # ''PNG'' @ img, None)),
      readFault = (\<lambda>p. None),
      createFault = (\<lambda>p. None),
      syncFault = (\<lambda>p. None),
      removeFault = (\<lambda>p. False),
      readDir = (\<lambda>p. if p = ''pics'' then Inr demoEntries
                     else Inl (''open '' @ p @ '': no such file or directory'')),
      mkdirAllFault = (\<lambda>p. None),
      fileAt = (\<lambda>p. p)\<rparr>"

text \<open>The same with an encoder that fails after three bytes, and with a failing sync.\<close>

definition encodeFailEnv :: "string env" where
  "encodeFailEnv =
     demoEnv\<lparr>pngEncode := (\<lambda>img p. (CHR 0x89 # ''PN'', Some ''no space left on device''))\<rparr>"

definition syncFailEnv :: "string env" where
  "syncFailEnv = demoEnv\<lparr>syncFault := (\<lambda>p. Some ''input/output error'')\<rparr>"

text \<open>The same with a failing encoder whose incomplete file cannot be removed either.\<close>

definition removeFailEnv :: "string env" where
  "removeFailEnv = encodeFailEnv\<lparr>removeFault := (\<lambda>p. True)\<rparr>"

text \<open>
  The same where a path with a leading \<^verbatim>\<open>./\<close> names the file that the path without it
  names.
\<close>

definition aliasEnv :: "string env" where
  "aliasEnv = demoEnv\<lparr>fileAt := (\<lambda>p. if take 2 p = ''./'' then drop 2 p else p)\<rparr>"

text \<open>The same where no output directory can be created.\<close>

definition mkdirFailEnv :: "string env" where
  "mkdirFailEnv = demoEnv\<lparr>mkdirAllFault := (\<lambda>p. Some ''permission denied'')\<rparr>"

text \<open>
  The files of the directory \<^verbatim>\<open>pics\<close>: a WebP file, a JPEG file named as WebP, a file that
  is neither, a WebP file holding the empty image, and a text file. The listing
  \<open>demoEntries\<close> has a directory named as a WebP file besides.
\<close>

definition demoWorld :: world where
  "demoWorld =
     \<lparr>files = map_of
        [(''pics/a.webp'', ''RIFFabc''),
         (''pics/b.WEBP'', CHR 0xFF # CHR 0xD8 # ''xyz''),
         (''pics/broken.webp'', ''hello''),
         (''pics/e.webp'', ''RIFF''),
         (''pics/notes.txt'', ''text'')],
      stdout = [], stderr = [], trace = []\<rparr>"

text \<open>The main loop of a run on this directory, writing beside the inputs.\<close>

definition demoLoop :: "tally \<times> world" where
  "demoLoop =
     processFiles demoEnv ''pics'' [] [''a.webp'', ''b.WEBP'', ''broken.webp'', ''e.webp'']
       (\<lparr>errors = [], successCount = 0\<rparr>, loopStart ''pics'' [] 4 demoWorld)"

section \<open>The paths through the single-file converter\<close>

lemmas os_defs = os_ReadFile_def os_Create_def png_Encode_def os_Close_def os_Remove_def
  os_Sync_def os_Stat_def os_ReadDir_def os_MkdirAll_def called_def writeTo_def
  printOut_def printErr_def

lemma newCalls_append [simp]:
  "trace w' = trace w @ cs \<Longrightarrow> newCalls w w' = cs"
  by (simp add: newCalls_def)

lemma newCalls_self [simp]: "newCalls w w = []"
  by (simp add: newCalls_def)

text \<open>One lemma for each return of \<^verbatim>\<open>convertWebPToPNG\<close>, giving the result and the state.\<close>

lemma convert_read_fault:
  assumes "readFault env inputPath = Some e"
  shows "convertWebPToPNG env inputPath outputPath w =
           (Some (ReadFailed e), w\<lparr>trace := trace w @ [CallReadFile inputPath]\<rparr>)"
  using assms by (simp add: convertWebPToPNG_def os_defs)

lemma convert_read_missing:
  assumes "readFault env inputPath = None" and "files w (fileAt env inputPath) = None"
  shows "convertWebPToPNG env inputPath outputPath w =
           (Some (ReadFailed (''open '' @ inputPath @ '': no such file or directory'')),
            w\<lparr>trace := trace w @ [CallReadFile inputPath]\<rparr>)"
  using assms by (simp add: convertWebPToPNG_def os_defs)

lemma convert_decode_failed:
  assumes "readFault env inputPath = None" and "files w (fileAt env inputPath) = Some inputData"
    and "decodeImage env inputData = Inl e"
  shows "convertWebPToPNG env inputPath outputPath w =
           (Some (DecodeFailed e), w\<lparr>trace := trace w @ [CallReadFile inputPath]\<rparr>)"
  using assms by (simp add: convertWebPToPNG_def os_defs)

lemma convert_create_failed:
  assumes "readFault env inputPath = None" and "files w (fileAt env inputPath) = Some inputData"
    and "decodeImage env inputData = Inr img"
    and "createFault env outputPath = Some e"
  shows "convertWebPToPNG env inputPath outputPath w =
           (Some (CreateFailed e),
            w\<lparr>trace := trace w @ [CallReadFile inputPath, CallCreate outputPath]\<rparr>)"
  using assms by (simp add: convertWebPToPNG_def os_defs)

lemma convert_encode_failed:
  assumes "readFault env inputPath = None" and "files w (fileAt env inputPath) = Some inputData"
    and "decodeImage env inputData = Inr img"
    and "createFault env outputPath = None"
    and "pngEncode env img outputPath = (bs, Some e)"
  shows "convertWebPToPNG env inputPath outputPath w =
           (Some (EncodeFailed e),
            w\<lparr>files := (if removeFault env outputPath then (files w)(fileAt env outputPath \<mapsto> bs)
                         else (files w)(fileAt env outputPath := None)),
              trace := trace w @ [CallReadFile inputPath, CallCreate outputPath,
                                  CallEncode outputPath, CallClose outputPath,
                                  CallRemove outputPath, CallClose outputPath]\<rparr>)"
  using assms by (simp add: convertWebPToPNG_def os_defs)

lemma convert_sync_failed:
  assumes "readFault env inputPath = None" and "files w (fileAt env inputPath) = Some inputData"
    and "decodeImage env inputData = Inr img"
    and "createFault env outputPath = None"
    and "pngEncode env img outputPath = (bs, None)"
    and "syncFault env outputPath = Some e"
  shows "convertWebPToPNG env inputPath outputPath w =
           (Some (SyncFailed e),
            w\<lparr>files := (files w)(fileAt env outputPath \<mapsto> bs),
              trace := trace w @ [CallReadFile inputPath, CallCreate outputPath,
                                  CallEncode outputPath, CallSync outputPath,
                                  CallClose outputPath]\<rparr>)"
  using assms by (simp add: convertWebPToPNG_def os_defs)

lemma convert_succeeded:
  assumes "readFault env inputPath = None" and "files w (fileAt env inputPath) = Some inputData"
    and "decodeImage env inputData = Inr img"
    and "createFault env outputPath = None"
    and "pngEncode env img outputPath = (bs, None)"
    and "syncFault env outputPath = None"
  shows "convertWebPToPNG env inputPath outputPath w =
           (None,
            w\<lparr>files := (files w)(fileAt env outputPath \<mapsto> bs),
              trace := trace w @ [CallReadFile inputPath, CallCreate outputPath,
                                  CallEncode outputPath, CallSync outputPath,
                                  CallClose outputPath]\<rparr>)"
  using assms by (simp add: convertWebPToPNG_def os_defs)

text \<open>The decoding block, by the results of the two decoders.\<close>

lemma decodeImage_webp: "webpDecode env d = Inr img \<Longrightarrow> decodeImage env d = Inr img"
  by (simp add: decodeImage_def)

lemma decodeImage_jpeg: "webpDecode env d = Inl e \<Longrightarrow> decodeImage env d = jpegDecode env d"
  by (simp add: decodeImage_def split: sum.splits)

lemma decodeImage_Inr_iff:
  "(\<exists>img. decodeImage env d = Inr img) \<longleftrightarrow>
     (\<exists>img. webpDecode env d = Inr img) \<or> (\<exists>img. jpegDecode env d = Inr img)"
  by (auto simp: decodeImage_def split: sum.splits)

lemma decodeImage_Inl_iff:
  "decodeImage env d = Inl e2 \<longleftrightarrow>
     (\<exists>e1. webpDecode env d = Inl e1) \<and> jpegDecode env d = Inl e2"
  by (auto simp: decodeImage_def split: sum.splits)

text \<open>Every call of the converter takes exactly one of the seven returns.\<close>

lemma convert_cases:
  obtains
    (read_fault) e where "readFault env inputPath = Some e"
  | (read_missing) "readFault env inputPath = None" "files w (fileAt env inputPath) = None"
  | (decode_failed) inputData e where
      "readFault env inputPath = None" "files w (fileAt env inputPath) = Some inputData"
      "decodeImage env inputData = Inl e"
  | (create_failed) inputData img e where
      "readFault env inputPath = None" "files w (fileAt env inputPath) = Some inputData"
      "decodeImage env inputData = Inr img" "createFault env outputPath = Some e"
  | (encode_failed) inputData img bs e where
      "readFault env inputPath = None" "files w (fileAt env inputPath) = Some inputData"
      "decodeImage env inputData = Inr img" "createFault env outputPath = None"
      "pngEncode env img outputPath = (bs, Some e)"
  | (sync_failed) inputData img bs e where
      "readFault env inputPath = None" "files w (fileAt env inputPath) = Some inputData"
      "decodeImage env inputData = Inr img" "createFault env outputPath = None"
      "pngEncode env img outputPath = (bs, None)" "syncFault env outputPath = Some e"
  | (succeeded) inputData img bs where
      "readFault env inputPath = None" "files w (fileAt env inputPath) = Some inputData"
      "decodeImage env inputData = Inr img" "createFault env outputPath = None"
      "pngEncode env img outputPath = (bs, None)" "syncFault env outputPath = None"
proof (cases "readFault env inputPath")
  case (Some e)
  then show ?thesis by (rule read_fault)
next
  case rd: None
  show ?thesis
  proof (cases "files w (fileAt env inputPath)")
    case None
    with rd show ?thesis by (rule read_missing)
  next
    case fl: (Some inputData)
    show ?thesis
    proof (cases "decodeImage env inputData")
      case (Inl e)
      with rd fl show ?thesis by (rule decode_failed)
    next
      case dec: (Inr img)
      show ?thesis
      proof (cases "createFault env outputPath")
        case (Some e)
        with rd fl dec show ?thesis by (rule create_failed)
      next
        case cr: None
        obtain bs r where enc: "pngEncode env img outputPath = (bs, r)"
          by (cases "pngEncode env img outputPath")
        show ?thesis
        proof (cases r)
          case (Some e)
          with rd fl dec cr enc show ?thesis by (auto intro: encode_failed)
        next
          case encok: None
          show ?thesis
          proof (cases "syncFault env outputPath")
            case (Some e)
            with rd fl dec cr enc encok show ?thesis by (auto intro: sync_failed)
          next
            case None
            with rd fl dec cr enc encok show ?thesis by (auto intro: succeeded)
          qed
        qed
      qed
    qed
  qed
qed

lemma decodeImage_syncFault_update [simp]:
  "decodeImage (env\<lparr>syncFault := f\<rparr>) d = decodeImage env d"
  by (auto simp: decodeImage_def split: sum.splits)

text \<open>In the concrete environments every path names a file of its own.\<close>

lemma fileAt_demo [simp]:
  "fileAt demoEnv p = p"
  "fileAt encodeFailEnv p = p"
  "fileAt syncFailEnv p = p"
  "fileAt removeFailEnv p = p"
  "fileAt mkdirFailEnv p = p"
  by (simp_all add: demoEnv_def encodeFailEnv_def syncFailEnv_def removeFailEnv_def
        mkdirFailEnv_def)

text \<open>Reading the path back from the result.\<close>

lemmas convert_paths = convert_read_fault convert_read_missing convert_decode_failed
  convert_create_failed convert_encode_failed convert_sync_failed convert_succeeded

lemma convert_None_D:
  assumes "convertWebPToPNG env inputPath outputPath w = (None, w')"
  shows "\<exists>inputData img bs.
           readFault env inputPath = None \<and> files w (fileAt env inputPath) = Some inputData \<and>
           decodeImage env inputData = Inr img \<and> createFault env outputPath = None \<and>
           pngEncode env img outputPath = (bs, None) \<and> syncFault env outputPath = None"
  by (cases rule: convert_cases [where env=env and inputPath=inputPath and w=w
        and outputPath=outputPath])
     (use assms in \<open>auto simp: convert_paths\<close>)

lemma convert_ReadFailed_D:
  assumes "convertWebPToPNG env inputPath outputPath w = (Some (ReadFailed e), w')"
  shows "w' = w\<lparr>trace := trace w @ [CallReadFile inputPath]\<rparr> \<and>
         (readFault env inputPath \<noteq> None \<or> files w (fileAt env inputPath) = None)"
  by (cases rule: convert_cases [where env=env and inputPath=inputPath and w=w
        and outputPath=outputPath])
     (use assms in \<open>auto simp: convert_paths\<close>)

lemma convert_DecodeFailed_D:
  assumes "convertWebPToPNG env inputPath outputPath w = (Some (DecodeFailed e), w')"
  shows "w' = w\<lparr>trace := trace w @ [CallReadFile inputPath]\<rparr> \<and>
         (\<exists>inputData. readFault env inputPath = None \<and> files w (fileAt env inputPath) = Some inputData \<and>
            decodeImage env inputData = Inl e)"
  by (cases rule: convert_cases [where env=env and inputPath=inputPath and w=w
        and outputPath=outputPath])
     (use assms in \<open>auto simp: convert_paths\<close>)

lemma convert_CreateFailed_D:
  assumes "convertWebPToPNG env inputPath outputPath w = (Some (CreateFailed e), w')"
  shows "w' = w\<lparr>trace := trace w @ [CallReadFile inputPath, CallCreate outputPath]\<rparr> \<and>
         createFault env outputPath = Some e"
  by (cases rule: convert_cases [where env=env and inputPath=inputPath and w=w
        and outputPath=outputPath])
     (use assms in \<open>auto simp: convert_paths\<close>)

lemma convert_EncodeFailed_D:
  assumes "convertWebPToPNG env inputPath outputPath w = (Some (EncodeFailed e), w')"
  shows "\<exists>inputData img bs.
           readFault env inputPath = None \<and> files w (fileAt env inputPath) = Some inputData \<and>
           decodeImage env inputData = Inr img \<and> createFault env outputPath = None \<and>
           pngEncode env img outputPath = (bs, Some e)"
  by (cases rule: convert_cases [where env=env and inputPath=inputPath and w=w
        and outputPath=outputPath])
     (use assms in \<open>auto simp: convert_paths\<close>)

lemma convert_SyncFailed_D:
  assumes "convertWebPToPNG env inputPath outputPath w = (Some (SyncFailed e), w')"
  shows "\<exists>inputData img bs.
           readFault env inputPath = None \<and> files w (fileAt env inputPath) = Some inputData \<and>
           decodeImage env inputData = Inr img \<and> createFault env outputPath = None \<and>
           pngEncode env img outputPath = (bs, None) \<and> syncFault env outputPath = Some e"
  by (cases rule: convert_cases [where env=env and inputPath=inputPath and w=w
        and outputPath=outputPath])
     (use assms in \<open>auto simp: convert_paths\<close>)

lemma pair_collapse: "f = (fst f, snd f)"
  by simp

section \<open>One iteration of the batch loop\<close>

lemma processFile_failed:
  assumes "convertWebPToPNG env (join inputDir webpFile)
             (outputPathOf inputDir outputDir webpFile) w = (Some err, w1)"
  shows "processFile env inputDir outputDir webpFile (t, w) =
           (addError webpFile (txt_convert_error @ webpFile @ '': '' @ errorText err) t,
            printErr (txt_convert_error @ webpFile @ '': '' @ errorText err @ nl) w1)"
  using assms by (simp add: processFile_def)

lemma processFile_converted:
  assumes "convertWebPToPNG env (join inputDir webpFile)
             (outputPathOf inputDir outputDir webpFile) w = (None, w1)"
  shows "processFile env inputDir outputDir webpFile (t, w) =
           verifyOutput env (outputPathOf inputDir outputDir webpFile) webpFile (t, w1)"
  using assms by (simp add: processFile_def)

text \<open>The three outcomes of the check of the destination.\<close>

lemma verifyOutput_missing:
  assumes "files w (fileAt env outputPath) = None"
  shows "verifyOutput env outputPath webpFile (t, w) =
           (addError webpFile (txt_output_file @ outputPath @ txt_not_found_after @ webpFile) t,
            w\<lparr>stderr := stderr w @ txt_error @ txt_output_file @ outputPath @
                           txt_not_found_after @ webpFile @ nl,
              trace := trace w @ [CallStat outputPath]\<rparr>)"
  using assms by (simp add: verifyOutput_def os_defs)

lemma verifyOutput_empty:
  assumes "files w (fileAt env outputPath) = Some []"
  shows "verifyOutput env outputPath webpFile (t, w) =
           (addError webpFile (txt_output_file @ outputPath @ txt_empty_after @ webpFile) t,
            w\<lparr>files := (if removeFault env outputPath then files w
                         else (files w)(fileAt env outputPath := None)),
              stderr := stderr w @ txt_error @ txt_output_file @ outputPath @
                           txt_empty_after @ webpFile @ nl,
              trace := trace w @ [CallStat outputPath, CallRemove outputPath]\<rparr>)"
  using assms by (simp add: verifyOutput_def os_defs)

lemma verifyOutput_verified:
  assumes "files w (fileAt env outputPath) = Some (b # bs)"
  shows "verifyOutput env outputPath webpFile (t, w) =
           (t\<lparr>successCount := successCount t + 1\<rparr>,
            w\<lparr>stdout := stdout w @ txt_converted @ webpFile @ '' -> '' @
                           pngNameOf webpFile @ nl,
              trace := trace w @ [CallStat outputPath]\<rparr>)"
  using assms by (simp add: verifyOutput_def os_defs)

section \<open>File names\<close>

text \<open>The test of the first loop is the test for the extension, in either case.\<close>

lemma toLowerByte_cases [simp]:
  "toLowerByte c = CHR ''.'' \<longleftrightarrow> c = CHR ''.''"
  "toLowerByte c = CHR ''w'' \<longleftrightarrow> c = CHR ''w'' \<or> c = CHR ''W''"
  "toLowerByte c = CHR ''e'' \<longleftrightarrow> c = CHR ''e'' \<or> c = CHR ''E''"
  "toLowerByte c = CHR ''b'' \<longleftrightarrow> c = CHR ''b'' \<or> c = CHR ''B''"
  "toLowerByte c = CHR ''p'' \<longleftrightarrow> c = CHR ''p'' \<or> c = CHR ''P''"
  by (simp_all add: toLowerByte_def)

lemma list_of_length_5:
  assumes "length xs = 5"
  obtains a b c d e where "xs = [a, b, c, d, e]"
  using assms by (auto simp: length_Suc_conv numeral_eq_Suc)

lemma hasSuffix_webp_iff:
  "hasSuffix (toLower name) ''.webp'' \<longleftrightarrow> endsInWebpExtension name"
proof
  assume h: "hasSuffix (toLower name) ''.webp''"
  have l5: "length ''.webp'' = 5"
    by simp
  from h have "5 \<le> length (toLower name) \<and>
      drop (length (toLower name) - 5) (toLower name) = ''.webp''"
    unfolding hasSuffix_def l5 .
  then have len: "5 \<le> length name"
    and suf: "map toLowerByte (drop (length name - 5) name) = ''.webp''"
    by (simp_all only: toLower_def drop_map length_map)
  from len have "length (drop (length name - 5) name) = 5"
    by simp
  then obtain a b c d e where d5: "drop (length name - 5) name = [a, b, c, d, e]"
    by (rule list_of_length_5)
  have "name = take (length name - 5) name @ drop (length name - 5) name"
    by simp
  with d5 have nm: "name = take (length name - 5) name @ [a, b, c, d, e]"
    by simp
  from suf d5 have "a = CHR ''.''" "b = CHR ''w'' \<or> b = CHR ''W''" "c = CHR ''e'' \<or> c = CHR ''E''"
    "d = CHR ''b'' \<or> d = CHR ''B''" "e = CHR ''p'' \<or> e = CHR ''P''"
    by simp_all
  with nm show "endsInWebpExtension name"
    unfolding endsInWebpExtension_def by blast
next
  assume "endsInWebpExtension name"
  then obtain stem c1 c2 c3 c4 where
    nm: "name = stem @ [CHR ''.'', c1, c2, c3, c4]"
    and c: "c1 = CHR ''w'' \<or> c1 = CHR ''W''" "c2 = CHR ''e'' \<or> c2 = CHR ''E''"
      "c3 = CHR ''b'' \<or> c3 = CHR ''B''" "c4 = CHR ''p'' \<or> c4 = CHR ''P''"
    unfolding endsInWebpExtension_def by blast
  from nm c show "hasSuffix (toLower name) ''.webp''"
    by (simp add: hasSuffix_def toLower_def)
qed

lemma selectWebP_filter:
  "selectWebP entries acc = acc @ map entryName (filter eligible entries)"
  by (induction entries arbitrary: acc)
     (simp_all add: eligible_def hasSuffix_webp_iff Let_def)

text \<open>\<^verbatim>\<open>filepath.Ext\<close> skips the bytes that are neither a dot nor a separator.\<close>

lemma extFrom_skip:
  assumes "n \<le> m"
    and "\<forall>i. n \<le> i \<and> i < m \<longrightarrow> p ! i \<noteq> CHR ''.'' \<and> p ! i \<noteq> CHR ''/''"
  shows "extFrom p m = extFrom p n"
  using assms by (induction m) (auto simp: le_Suc_eq)

lemma ext_of_dotted:
  assumes "CHR ''.'' \<notin> set e" and "CHR ''/'' \<notin> set e"
  shows "ext (pre @ CHR ''.'' # e) = CHR ''.'' # e"
proof -
  let ?p = "pre @ CHR ''.'' # e"
  have "\<forall>i. Suc (length pre) \<le> i \<and> i < length ?p \<longrightarrow>
          ?p ! i \<noteq> CHR ''.'' \<and> ?p ! i \<noteq> CHR ''/''"
  proof (intro allI impI)
    fix i
    assume i: "Suc (length pre) \<le> i \<and> i < length ?p"
    then have "?p ! i = e ! (i - Suc (length pre))" and "i - Suc (length pre) < length e"
      by (auto simp: nth_append nth_Cons')
    with assms show "?p ! i \<noteq> CHR ''.'' \<and> ?p ! i \<noteq> CHR ''/''"
      by (metis nth_mem)
  qed
  then have "extFrom ?p (length ?p) = extFrom ?p (Suc (length pre))"
    by (intro extFrom_skip) simp_all
  then show ?thesis
    by (simp add: ext_def)
qed

lemma ext_without_dot:
  assumes "CHR ''.'' \<notin> set base" and "CHR ''/'' \<notin> set base"
    and "dir = [] \<or> last dir = CHR ''/''"
  shows "ext (dir @ base) = []"
proof -
  let ?p = "dir @ base"
  have "\<forall>i. length dir \<le> i \<and> i < length ?p \<longrightarrow>
          ?p ! i \<noteq> CHR ''.'' \<and> ?p ! i \<noteq> CHR ''/''"
  proof (intro allI impI)
    fix i
    assume i: "length dir \<le> i \<and> i < length ?p"
    then have "?p ! i = base ! (i - length dir)" and "i - length dir < length base"
      by (auto simp: nth_append)
    with assms(1,2) show "?p ! i \<noteq> CHR ''.'' \<and> ?p ! i \<noteq> CHR ''/''"
      by (metis nth_mem)
  qed
  then have skip: "extFrom ?p (length ?p) = extFrom ?p (length dir)"
    by (intro extFrom_skip) simp_all
  show ?thesis
  proof (cases dir rule: rev_cases)
    case Nil
    with skip show ?thesis by (simp add: ext_def)
  next
    case (snoc ds d)
    with assms(3) have "d = CHR ''/''" by simp
    with snoc skip show ?thesis by (simp add: ext_def nth_append)
  qed
qed

lemma trimSuffix_append [simp]: "trimSuffix (xs @ ys) ys = xs"
  by (simp add: trimSuffix_def hasSuffix_def)

lemma trimSuffix_Nil [simp]: "trimSuffix xs [] = xs"
  by (simp add: trimSuffix_def hasSuffix_def)

lemma pngNameOf_dotted:
  assumes "CHR ''.'' \<notin> set e" and "CHR ''/'' \<notin> set e"
  shows "pngNameOf (stem @ CHR ''.'' # e) = stem @ ''.png''"
  using trimSuffix_append [of stem "CHR ''.'' # e"]
  by (simp add: pngNameOf_def ext_of_dotted [OF assms])

lemma pngNameOf_eligible:
  assumes "endsInWebpExtension webpFile"
  shows "\<exists>stem suffix. webpFile = stem @ suffix \<and> length suffix = 5 \<and>
           ext webpFile = suffix \<and> pngNameOf webpFile = stem @ ''.png''"
proof -
  from assms obtain stem c1 c2 c3 c4 where
    nm: "webpFile = stem @ CHR ''.'' # [c1, c2, c3, c4]"
    and c: "c1 = CHR ''w'' \<or> c1 = CHR ''W''" "c2 = CHR ''e'' \<or> c2 = CHR ''E''"
      "c3 = CHR ''b'' \<or> c3 = CHR ''B''" "c4 = CHR ''p'' \<or> c4 = CHR ''P''"
    unfolding endsInWebpExtension_def by auto
  from c have no: "CHR ''.'' \<notin> set [c1, c2, c3, c4]" "CHR ''/'' \<notin> set [c1, c2, c3, c4]"
    by auto
  from ext_of_dotted [OF no] pngNameOf_dotted [OF no] nm
  have "ext webpFile = CHR ''.'' # [c1, c2, c3, c4]" "pngNameOf webpFile = stem @ ''.png''"
    by simp_all
  with nm show ?thesis
    by (intro exI [of _ stem] exI [of _ "CHR ''.'' # [c1, c2, c3, c4]"]) simp
qed

text \<open>
  Joining a plain name to a directory: the cleaned directory, a slash and the name; the
  name alone in the current directory, and one slash only after the root.
\<close>

lemma splitSlash_not_Nil [simp]: "splitSlash s \<noteq> []"
  by (induction s) (auto split: list.splits)

lemma splitSlash_plain: "CHR ''/'' \<notin> set s \<Longrightarrow> splitSlash s = [s]"
  by (induction s) auto

lemma splitSlash_append_slash:
  "splitSlash (a @ CHR ''/'' # b) = splitSlash a @ splitSlash b"
proof (induction a)
  case Nil
  show ?case by simp
next
  case (Cons c a)
  obtain e es where s: "splitSlash a = e # es"
    by (cases "splitSlash a") auto
  with Cons show ?case
    by simp
qed

lemma joinSlash_snoc:
  "joinSlash (st @ [e]) = (if st = [] then e else joinSlash st @ ''/'' @ e)"
  by (induction st rule: joinSlash.induct) auto

lemma cleanStep_plain: "plainName n \<Longrightarrow> cleanStep r st n = st @ [n]"
  by (simp add: cleanStep_def plainName_def)

lemma splitSlash_no_slash: "e \<in> set (splitSlash s) \<Longrightarrow> CHR ''/'' \<notin> set e"
proof (induction s arbitrary: e)
  case Nil
  then show ?case by simp
next
  case (Cons c s)
  obtain x xs where s: "splitSlash s = x # xs"
    by (cases "splitSlash s") auto
  with Cons show ?case
    by (auto split: if_splits)
qed

lemma cleanStep_kept:
  "keptElems st \<Longrightarrow> CHR ''/'' \<notin> set e \<Longrightarrow> keptElems (cleanStep r st e)"
  by (auto simp: cleanStep_def keptElems_def dest: in_set_butlastD)

lemma foldl_cleanStep_kept:
  "keptElems st \<Longrightarrow> \<forall>e \<in> set es. CHR ''/'' \<notin> set e \<Longrightarrow> keptElems (foldl (cleanStep r) st es)"
  by (induction es arbitrary: st) (simp_all add: cleanStep_kept)

lemma joinSlash_kept:
  "keptElems st \<Longrightarrow> st \<noteq> [] \<Longrightarrow>
     joinSlash st \<noteq> [] \<and> joinSlash st \<noteq> ''.'' \<and> joinSlash st \<noteq> ''/''"
proof (induction st rule: joinSlash.induct)
  case 1
  then show ?case by simp
next
  case (2 e)
  then show ?case by (auto simp: keptElems_def)
next
  case (3 e v va)
  then show ?case
    by (cases e) (auto simp: keptElems_def)
qed

lemma join_plain:
  assumes "plainName n"
  shows "join dir n =
           (if clean dir = ''.'' then n
            else if clean dir = ''/'' then ''/'' @ n
            else clean dir @ ''/'' @ n)"
proof (cases "dir = []")
  case True
  from assms have "splitSlash n = [n]"
    by (simp add: splitSlash_plain plainName_def)
  with assms True show ?thesis
    by (cases n) (auto simp: join_def clean_def cleanStep_plain plainName_def)
next
  case False
  define r where "r = (hd dir = CHR ''/'')"
  define st where "st = foldl (cleanStep r) [] (splitSlash dir)"
  have kept: "keptElems st"
    unfolding st_def
    by (intro foldl_cleanStep_kept) (auto simp: keptElems_def dest: splitSlash_no_slash)
  from assms have sn: "splitSlash n = [n]"
    by (simp add: splitSlash_plain plainName_def)
  from False have hd: "hd (dir @ ''/'' @ n) = hd dir"
    by simp
  have fold: "foldl (cleanStep r) [] (splitSlash (dir @ ''/'' @ n)) = st @ [n]"
    using assms by (simp add: splitSlash_append_slash sn st_def cleanStep_plain)
  have cd: "clean dir = (if (if r then ''/'' else []) @ joinSlash st = [] then ''.''
                         else (if r then ''/'' else []) @ joinSlash st)"
    using False by (simp add: clean_def r_def st_def Let_def)
  have "join dir n =
          (if (if r then ''/'' else []) @ joinSlash (st @ [n]) = [] then ''.''
           else (if r then ''/'' else []) @ joinSlash (st @ [n]))"
    using False unfolding join_def clean_def Let_def hd r_def [symmetric] fold
    by simp
  moreover from assms have "joinSlash (st @ [n]) \<noteq> []"
    by (simp add: joinSlash_snoc plainName_def)
  ultimately have cj: "join dir n = (if r then ''/'' else []) @ joinSlash (st @ [n])"
    by simp
  show ?thesis
  proof (cases "st = []")
    case True
    with cd cj show ?thesis
      by (simp add: joinSlash_snoc)
  next
    case ne: False
    from joinSlash_kept [OF kept ne] cd cj ne show ?thesis
      by (auto simp: joinSlash_snoc)
  qed
qed

section \<open>The calls and the tally of the batch loop\<close>

lemma readFilePaths_append [simp]:
  "readFilePaths (xs @ ys) = readFilePaths xs @ readFilePaths ys"
  by (induction xs rule: readFilePaths.induct) simp_all

lemma readDirPaths_append [simp]:
  "readDirPaths (xs @ ys) = readDirPaths xs @ readDirPaths ys"
  by (induction xs rule: readDirPaths.induct) simp_all

text \<open>A call of the converter reads its input once and lists no directory.\<close>

lemma convert_calls:
  "\<exists>cs. trace (snd (convertWebPToPNG env inputPath outputPath w)) =
          trace w @ CallReadFile inputPath # cs \<and>
        readFilePaths cs = [] \<and> readDirPaths cs = []"
  by (cases rule: convert_cases [where env=env and inputPath=inputPath and w=w
        and outputPath=outputPath])
     (simp_all add: convert_paths)

lemma verifyOutput_calls:
  "\<exists>cs. trace (snd (verifyOutput env outputPath webpFile (t, w))) = trace w @ cs \<and>
        readFilePaths cs = [] \<and> readDirPaths cs = []"
proof (cases "files w (fileAt env outputPath)")
  case None
  then show ?thesis by (simp add: verifyOutput_missing)
next
  case (Some data)
  then show ?thesis
    by (cases data) (simp_all add: verifyOutput_empty verifyOutput_verified)
qed

lemma processFile_calls:
  "\<exists>cs. trace (snd (processFile env inputDir outputDir webpFile (t, w))) = trace w @ cs \<and>
        readFilePaths cs = [join inputDir webpFile] \<and> readDirPaths cs = []"
proof -
  obtain res w1 where
    r: "convertWebPToPNG env (join inputDir webpFile)
          (outputPathOf inputDir outputDir webpFile) w = (res, w1)"
    by (cases "convertWebPToPNG env (join inputDir webpFile)
          (outputPathOf inputDir outputDir webpFile) w")
  from convert_calls [of env "join inputDir webpFile"
         "outputPathOf inputDir outputDir webpFile" w] r
  obtain cs where cs: "trace w1 = trace w @ CallReadFile (join inputDir webpFile) # cs"
      "readFilePaths cs = []" "readDirPaths cs = []"
    by auto
  show ?thesis
  proof (cases res)
    case (Some err)
    with r cs show ?thesis
      by (simp add: processFile_failed printErr_def)
  next
    case None
    from verifyOutput_calls [of env "outputPathOf inputDir outputDir webpFile" webpFile t w1]
    obtain ds where ds:
      "trace (snd (verifyOutput env (outputPathOf inputDir outputDir webpFile) webpFile (t, w1)))
         = trace w1 @ ds" "readFilePaths ds = []" "readDirPaths ds = []"
      by blast
    from None r have "processFile env inputDir outputDir webpFile (t, w) =
        verifyOutput env (outputPathOf inputDir outputDir webpFile) webpFile (t, w1)"
      by (simp add: processFile_converted)
    with cs ds show ?thesis
      by simp
  qed
qed

lemma processFiles_calls:
  "\<exists>cs. trace (snd (processFiles env inputDir outputDir webpFiles tw)) = trace (snd tw) @ cs \<and>
        readFilePaths cs = map (join inputDir) webpFiles \<and> readDirPaths cs = []"
proof (induction webpFiles arbitrary: tw)
  case Nil
  show ?case by simp
next
  case (Cons f rest)
  obtain t w where tw: "tw = (t, w)"
    by (cases tw)
  from processFile_calls [of env inputDir outputDir f t w]
  obtain cs where cs:
    "trace (snd (processFile env inputDir outputDir f (t, w))) = trace w @ cs"
    "readFilePaths cs = [join inputDir f]" "readDirPaths cs = []"
    by blast
  from Cons.IH [of "processFile env inputDir outputDir f (t, w)"]
  obtain ds where ds:
    "trace (snd (processFiles env inputDir outputDir rest
                   (processFile env inputDir outputDir f (t, w)))) =
       trace (snd (processFile env inputDir outputDir f (t, w))) @ ds"
    "readFilePaths ds = map (join inputDir) rest" "readDirPaths ds = []"
    by blast
  from cs ds tw show ?case
    by (intro exI [of _ "cs @ ds"]) simp
qed

text \<open>Every iteration adds one to the number of successes or one error for its file.\<close>

lemma verifyOutput_tally:
  "(\<exists>b bs. files w (fileAt env outputPath) = Some (b # bs)) \<and>
     fst (verifyOutput env outputPath webpFile (t, w)) = t\<lparr>successCount := successCount t + 1\<rparr>
   \<or> (\<forall>b bs. files w (fileAt env outputPath) \<noteq> Some (b # bs)) \<and>
     (\<exists>msg. fst (verifyOutput env outputPath webpFile (t, w)) = addError webpFile msg t)"
proof (cases "files w (fileAt env outputPath)")
  case None
  then show ?thesis by (auto simp: verifyOutput_missing)
next
  case (Some data)
  then show ?thesis
    by (cases data) (auto simp: verifyOutput_empty verifyOutput_verified)
qed

lemma processFile_tally:
  "fst (processFile env inputDir outputDir webpFile (t, w)) =
     t\<lparr>successCount := successCount t + 1\<rparr>
   \<or> (\<exists>msg. fst (processFile env inputDir outputDir webpFile (t, w)) = addError webpFile msg t)"
proof -
  obtain res w1 where
    r: "convertWebPToPNG env (join inputDir webpFile)
          (outputPathOf inputDir outputDir webpFile) w = (res, w1)"
    by (cases "convertWebPToPNG env (join inputDir webpFile)
          (outputPathOf inputDir outputDir webpFile) w")
  show ?thesis
  proof (cases res)
    case (Some err)
    with r show ?thesis
      by (auto simp: processFile_failed)
  next
    case None
    with r verifyOutput_tally [where w=w1 and outputPath="outputPathOf inputDir outputDir webpFile"
        and env=env and webpFile=webpFile and t=t]
    show ?thesis
      by (auto simp: processFile_converted)
  qed
qed

lemma processFiles_tally:
  "length (errors (fst (processFiles env inputDir outputDir webpFiles tw))) +
     successCount (fst (processFiles env inputDir outputDir webpFiles tw)) =
   length (errors (fst tw)) + successCount (fst tw) + length webpFiles"
proof (induction webpFiles arbitrary: tw)
  case Nil
  show ?case by simp
next
  case (Cons f rest)
  obtain t w where tw: "tw = (t, w)"
    by (cases tw)
  from processFile_tally [of env inputDir outputDir f t w]
  have "length (errors (fst (processFile env inputDir outputDir f (t, w)))) +
          successCount (fst (processFile env inputDir outputDir f (t, w))) =
        length (errors t) + successCount t + 1"
    by (auto simp: addError_def)
  with Cons.IH [of "processFile env inputDir outputDir f (t, w)"] tw show ?case
    by simp
qed

text \<open>
  The errors recorded by the loop extend those recorded before; their files are files of
  the loop, in the order of the loop.
\<close>

lemma processFiles_errors:
  "\<exists>es. errors (fst (processFiles env inputDir outputDir webpFiles tw)) = errors (fst tw) @ es \<and>
        subseq (map fileName es) webpFiles"
proof (induction webpFiles arbitrary: tw)
  case Nil
  show ?case by simp
next
  case (Cons f rest)
  obtain t w where tw: "tw = (t, w)"
    by (cases tw)
  from processFile_tally [of env inputDir outputDir f t w]
  obtain es1 where es1:
    "errors (fst (processFile env inputDir outputDir f (t, w))) = errors t @ es1"
    "subseq (map fileName es1) [f]"
    by (auto simp: addError_def)
  from Cons.IH [of "processFile env inputDir outputDir f (t, w)"]
  obtain es2 where es2:
    "errors (fst (processFiles env inputDir outputDir rest
                    (processFile env inputDir outputDir f (t, w)))) =
       errors (fst (processFile env inputDir outputDir f (t, w))) @ es2"
    "subseq (map fileName es2) rest"
    by blast
  from es1(2) es2(2) have "subseq (map fileName es1 @ map fileName es2) ([f] @ rest)"
    by (rule list_emb_append_mono)
  with es1(1) es2(1) tw show ?case
    by (intro exI [of _ "es1 @ es2"]) simp
qed

section \<open>The report and the returns of the batch processor\<close>

lemma writeEntries_eq:
  assumes "files w (fileAt env reportPath) = Some old"
  shows "writeEntries env reportPath i errs w =
           w\<lparr>files := (files w)(fileAt env reportPath \<mapsto> old @ concat (map reportEntry (enumerate i errs)))\<rparr>"
  using assms
proof (induction errs arbitrary: i w old)
  case Nil
  then show ?case
    by (simp add: fun_upd_idem)
next
  case (Cons e errs)
  define w1 where
    "w1 = writeTo env reportPath (txt_entry_error @ errorMsg e @ nl @ nl)
            (writeTo env reportPath (itoa (i + 1) @ txt_entry_file @ fileName e @ nl) w)"
  from Cons.prems have w1: "w1 = w\<lparr>files := (files w)(fileAt env reportPath \<mapsto> old @ reportEntry (i, e))\<rparr>"
    by (simp add: w1_def writeTo_def reportEntry_def)
  then have f1: "files w1 (fileAt env reportPath) = Some (old @ reportEntry (i, e))"
    by simp
  have "writeEntries env reportPath i (e # errs) w = writeEntries env reportPath (i + 1) errs w1"
    by (simp add: w1_def)
  also have "\<dots> = w1\<lparr>files := (files w1)(fileAt env reportPath \<mapsto>
                 (old @ reportEntry (i, e)) @ concat (map reportEntry (enumerate (i + 1) errs)))\<rparr>"
    by (rule Cons.IH [OF f1])
  also have "\<dots> = w\<lparr>files := (files w)(fileAt env reportPath \<mapsto>
                 old @ concat (map reportEntry (enumerate i (e # errs))))\<rparr>"
    unfolding w1 by simp
  finally show ?case .
qed

lemma writeReport_created:
  assumes "createFault env (reportPathOf inputDir outputDir) = None"
  shows "writeReport env inputDir outputDir errs w =
           (Some (reportPathOf inputDir outputDir),
            w\<lparr>files := (files w)(fileAt env (reportPathOf inputDir outputDir) \<mapsto> reportText errs),
              stdout := stdout w @ txt_report_created @ reportPathOf inputDir outputDir @ nl,
              trace := trace w @ [CallCreate (reportPathOf inputDir outputDir)]\<rparr>)"
proof -
  let ?p = "reportPathOf inputDir outputDir"
  let ?w1 = "writeTo env ?p (txt_total_errors @ itoa (length errs) @ nl @ nl)
               (writeTo env ?p txt_report_rule
                  (writeTo env ?p txt_report_header
                     (called (CallCreate ?p) (w\<lparr>files := (files w)(fileAt env ?p \<mapsto> [])\<rparr>))))"
  have f: "files ?w1 (fileAt env ?p) =
             Some (txt_report_header @ txt_report_rule @
                   txt_total_errors @ itoa (length errs) @ nl @ nl)"
    by (simp add: writeTo_def called_def)
  have "writeReport env inputDir outputDir errs w =
          (Some ?p, printOut (txt_report_created @ ?p @ nl) (writeEntries env ?p 0 errs ?w1))"
    unfolding writeReport_def Let_def reportPathOf_def [symmetric]
    using assms by (simp add: os_Create_def)
  also have "writeEntries env ?p 0 errs ?w1 =
      ?w1\<lparr>files := (files ?w1)(fileAt env ?p \<mapsto> reportText errs)\<rparr>"
    unfolding writeEntries_eq [OF f] reportText_def by simp
  finally show ?thesis
    by (simp add: writeTo_def called_def printOut_def)
qed

lemma writeReport_failed:
  assumes "createFault env (reportPathOf inputDir outputDir) = Some e"
  shows "writeReport env inputDir outputDir errs w =
           (None,
            w\<lparr>stderr := stderr w @ txt_report_warning @ e @ nl,
              trace := trace w @ [CallCreate (reportPathOf inputDir outputDir)]\<rparr>)"
  unfolding writeReport_def Let_def reportPathOf_def [symmetric]
  using assms by (simp add: os_Create_def called_def printErr_def)

text \<open>The three ways the end of the batch goes.\<close>

lemma finishBatch_no_errors:
  assumes "errors t = []"
  shows "finishBatch env inputDir outputDir n (t, w) =
           w\<lparr>stdout := stdout w @ txt_done @ itoa (successCount t) @ txt_of @ itoa n @ nl\<rparr>"
  using assms by (simp add: finishBatch_def printOut_def)

lemma finishBatch_report:
  assumes "errors t \<noteq> []" and "createFault env (reportPathOf inputDir outputDir) = None"
  shows "finishBatch env inputDir outputDir n (t, w) =
           w\<lparr>files := (files w)(fileAt env (reportPathOf inputDir outputDir) \<mapsto> reportText (errors t)),
             stdout := stdout w @ txt_report_created @ reportPathOf inputDir outputDir @ nl @
                       txt_done @ itoa (successCount t) @ txt_of @ itoa n @ nl,
             trace := trace w @ [CallCreate (reportPathOf inputDir outputDir),
                                 CallClose (reportPathOf inputDir outputDir)]\<rparr>"
  using assms
  by (simp add: finishBatch_def writeReport_created printOut_def os_Close_def called_def)

lemma finishBatch_no_report:
  assumes "errors t \<noteq> []" and "createFault env (reportPathOf inputDir outputDir) = Some e"
  shows "finishBatch env inputDir outputDir n (t, w) =
           w\<lparr>stdout := stdout w @ txt_done @ itoa (successCount t) @ txt_of @ itoa n @ nl,
             stderr := stderr w @ txt_report_warning @ e @ nl,
             trace := trace w @ [CallCreate (reportPathOf inputDir outputDir)]\<rparr>"
  using assms
  by (simp add: finishBatch_def writeReport_failed printOut_def)

lemma loopStart_simps [simp]:
  "files (loopStart inputDir outputDir found w) = files w"
  "stderr (loopStart inputDir outputDir found w) = stderr w"
  "stdout (loopStart inputDir outputDir found w) = stdout w @ txt_found @ itoa found @ nl"
  "trace (loopStart inputDir outputDir found w) =
     trace w @ CallReadDir inputDir #
       (if outputDir \<noteq> [] \<and> outputDir \<noteq> inputDir then [CallMkdirAll outputDir] else [])"
  by (simp_all add: loopStart_def called_def printOut_def)

text \<open>The four returns of \<^verbatim>\<open>convertDirectory\<close>.\<close>

lemma convertDirectory_list_failed:
  assumes "readDir env inputDir = Inl e"
  shows "convertDirectory env inputDir outputDir w =
           (Some (txt_readdir_failed @ e), w\<lparr>trace := trace w @ [CallReadDir inputDir]\<rparr>)"
  using assms by (simp add: convertDirectory_def Let_def os_ReadDir_def called_def)

lemma convertDirectory_none_found:
  assumes "readDir env inputDir = Inr entries" and "selectWebP entries [] = []"
  shows "convertDirectory env inputDir outputDir w =
           (None, w\<lparr>stdout := stdout w @ txt_none_found @ inputDir @ nl,
                    trace := trace w @ [CallReadDir inputDir]\<rparr>)"
  using assms by (simp add: convertDirectory_def Let_def os_ReadDir_def called_def printOut_def)

lemma convertDirectory_mkdir_failed:
  assumes "readDir env inputDir = Inr entries" and "selectWebP entries [] \<noteq> []"
    and "outputDir \<noteq> []" and "outputDir \<noteq> inputDir"
    and "mkdirAllFault env outputDir = Some e"
  shows "convertDirectory env inputDir outputDir w =
           (Some (txt_mkdir_failed @ e),
            loopStart inputDir outputDir (length (selectWebP entries [])) w)"
  using assms
  by (simp add: convertDirectory_def Let_def os_ReadDir_def os_MkdirAll_def called_def printOut_def
        loopStart_def)

lemma convertDirectory_run:
  assumes "readDir env inputDir = Inr entries" and "selectWebP entries [] \<noteq> []"
    and "outputDir = [] \<or> outputDir = inputDir \<or> mkdirAllFault env outputDir = None"
  shows "convertDirectory env inputDir outputDir w =
           (None,
            finishBatch env inputDir outputDir (length (selectWebP entries []))
              (processFiles env inputDir outputDir (selectWebP entries [])
                 (\<lparr>errors = [], successCount = 0\<rparr>,
                  loopStart inputDir outputDir (length (selectWebP entries [])) w)))"
  using assms
  by (auto simp: convertDirectory_def Let_def os_ReadDir_def os_MkdirAll_def called_def printOut_def
        loopStart_def)

text \<open>The end of the batch reads no file and lists no directory.\<close>

lemma finishBatch_calls:
  "\<exists>cs. trace (finishBatch env inputDir outputDir n (t, w)) = trace w @ cs \<and>
        readFilePaths cs = [] \<and> readDirPaths cs = []"
proof (cases "errors t = []")
  case True
  then show ?thesis by (simp add: finishBatch_no_errors)
next
  case False
  then show ?thesis
    by (cases "createFault env (reportPathOf inputDir outputDir)")
       (simp_all add: finishBatch_report finishBatch_no_report)
qed

text \<open>
  A run that returns no error lists the input directory, once, and reads the selected files,
  each once, in the order of the listing.
\<close>

lemma convertDirectory_calls:
  assumes "readDir env inputDir = Inr entries"
    and "convertDirectory env inputDir outputDir w = (None, w')"
  shows "readDirPaths (newCalls w w') = [inputDir] \<and>
         readFilePaths (newCalls w w') = map (join inputDir) (selectWebP entries [])"
proof (cases "selectWebP entries [] = []")
  case True
  with assms convertDirectory_none_found [OF assms(1) True, of outputDir w] show ?thesis
    by auto
next
  case False
  have ok: "outputDir = [] \<or> outputDir = inputDir \<or> mkdirAllFault env outputDir = None"
  proof (rule ccontr)
    assume "\<not> ?thesis"
    then obtain e where "outputDir \<noteq> []" "outputDir \<noteq> inputDir"
      "mkdirAllFault env outputDir = Some e"
      by auto
    from convertDirectory_mkdir_failed [OF assms(1) False this] assms(2) show False
      by simp
  qed
  let ?n = "length (selectWebP entries [])"
  let ?start = "(\<lparr>errors = [], successCount = 0\<rparr>, loopStart inputDir outputDir ?n w)"
  let ?loop = "processFiles env inputDir outputDir (selectWebP entries []) ?start"
  from convertDirectory_run [OF assms(1) False ok] assms(2)
  have w': "w' = finishBatch env inputDir outputDir ?n (fst ?loop, snd ?loop)"
    by simp
  from processFiles_calls [of env inputDir outputDir "selectWebP entries []" ?start]
  obtain cs where cs: "trace (snd ?loop) = trace (loopStart inputDir outputDir ?n w) @ cs"
    "readFilePaths cs = map (join inputDir) (selectWebP entries [])" "readDirPaths cs = []"
    by auto
  from finishBatch_calls [of env inputDir outputDir ?n "fst ?loop" "snd ?loop"] w'
  obtain ds where ds: "trace w' = trace (snd ?loop) @ ds"
    "readFilePaths ds = []" "readDirPaths ds = []"
    by auto
  from cs(1) ds(1) have "newCalls w w' =
      CallReadDir inputDir #
        (if outputDir \<noteq> [] \<and> outputDir \<noteq> inputDir then [CallMkdirAll outputDir] else [])
        @ cs @ ds"
    by (intro newCalls_append) simp
  with cs(2,3) ds(2,3) show ?thesis
    by simp
qed

section \<open>The decode policy\<close>

text \<open>
  C1. For a readable input, the decoding block gives the WebP image when the WebP decoder
  succeeds and otherwise whatever the JPEG decoder gives on the same bytes. The destination
  is opened exactly when one of the two decoders succeeded, and the encoder is called exactly
  when moreover the destination could be opened. An input that only the JPEG decoder accepts
  is converted: with no failure of the destination, the call returns no error and the
  destination holds the encoded image.
\<close>
theorem convert_decode_fallback:
  assumes "readFault env inputPath = None" and "files w (fileAt env inputPath) = Some inputData"
    and "convertWebPToPNG env inputPath outputPath w = (res, w')"
  shows "(\<forall>img. webpDecode env inputData = Inr img \<longrightarrow> decodeImage env inputData = Inr img) \<and>
         (\<forall>e. webpDecode env inputData = Inl e \<longrightarrow>
              decodeImage env inputData = jpegDecode env inputData) \<and>
         (CallCreate outputPath \<in> set (newCalls w w')
          \<longleftrightarrow> (\<exists>img. webpDecode env inputData = Inr img) \<or>
              (\<exists>img. jpegDecode env inputData = Inr img)) \<and>
         (CallEncode outputPath \<in> set (newCalls w w')
          \<longleftrightarrow> ((\<exists>img. webpDecode env inputData = Inr img) \<or>
               (\<exists>img. jpegDecode env inputData = Inr img)) \<and>
              createFault env outputPath = None) \<and>
         (\<forall>e img bs.
            webpDecode env inputData = Inl e \<and> jpegDecode env inputData = Inr img \<and>
            createFault env outputPath = None \<and> pngEncode env img outputPath = (bs, None) \<and>
            syncFault env outputPath = None \<longrightarrow>
            res = None \<and> files w' = (files w)(fileAt env outputPath \<mapsto> bs))"
proof -
  note iff = decodeImage_Inr_iff [of env inputData, symmetric]
  have a: "\<forall>img. webpDecode env inputData = Inr img \<longrightarrow> decodeImage env inputData = Inr img"
    by (simp add: decodeImage_webp)
  have b: "\<forall>e. webpDecode env inputData = Inl e \<longrightarrow>
              decodeImage env inputData = jpegDecode env inputData"
    by (simp add: decodeImage_jpeg)
  have c: "(CallCreate outputPath \<in> set (newCalls w w')
          \<longleftrightarrow> (\<exists>img. decodeImage env inputData = Inr img)) \<and>
         (CallEncode outputPath \<in> set (newCalls w w')
          \<longleftrightarrow> (\<exists>img. decodeImage env inputData = Inr img) \<and>
              createFault env outputPath = None)"
  proof (cases rule: convert_cases [where env=env and inputPath=inputPath and w=w and outputPath=outputPath])
    case (decode_failed d e)
    with assms show ?thesis by (auto simp: convert_decode_failed)
  next
    case (create_failed d img e)
    with assms show ?thesis by (auto simp: convert_create_failed)
  next
    case (encode_failed d img bs e)
    with assms show ?thesis by (auto simp: convert_encode_failed)
  next
    case (sync_failed d img bs e)
    with assms show ?thesis by (auto simp: convert_sync_failed)
  next
    case (succeeded d img bs)
    with assms show ?thesis by (auto simp: convert_succeeded)
  qed (use assms in auto)
  have d: "\<forall>e img bs.
            webpDecode env inputData = Inl e \<and> jpegDecode env inputData = Inr img \<and>
            createFault env outputPath = None \<and> pngEncode env img outputPath = (bs, None) \<and>
            syncFault env outputPath = None \<longrightarrow>
            res = None \<and> files w' = (files w)(fileAt env outputPath \<mapsto> bs)"
  proof (intro allI impI, elim conjE)
    fix e img bs
    assume h: "webpDecode env inputData = Inl e" "jpegDecode env inputData = Inr img"
      "createFault env outputPath = None" "pngEncode env img outputPath = (bs, None)"
      "syncFault env outputPath = None"
    then have "decodeImage env inputData = Inr img"
      by (simp add: decodeImage_jpeg)
    from convert_succeeded [OF assms(1,2) this h(3,4,5)] assms(3)
    show "res = None \<and> files w' = (files w)(fileAt env outputPath \<mapsto> bs)" by simp
  qed
  from a b c d show ?thesis unfolding iff by blast
qed

theorem convert_decode_fallback_witness:
  "readFault demoEnv ''pics/b.WEBP'' = None \<and>
   files demoWorld ''pics/b.WEBP'' = Some (CHR 0xFF # CHR 0xD8 # ''xyz'') \<and>
   webpDecode demoEnv (CHR 0xFF # CHR 0xD8 # ''xyz'') = Inl ''riff: missing RIFF chunk header'' \<and>
   jpegDecode demoEnv (CHR 0xFF # CHR 0xD8 # ''xyz'') = Inr ''xyz'' \<and>
   fst (convertWebPToPNG demoEnv ''pics/b.WEBP'' ''pics/b.png'' demoWorld) = None \<and>
   files (snd (convertWebPToPNG demoEnv ''pics/b.WEBP'' ''pics/b.png'' demoWorld))
     = (files demoWorld)(''pics/b.png'' \<mapsto> CHR 0x89 # ''PNGxyz'')"
proof -
  have rd: "readFault demoEnv ''pics/b.WEBP'' = None"
    by (simp add: demoEnv_def)
  have fl: "files demoWorld (fileAt demoEnv ''pics/b.WEBP'') = Some (CHR 0xFF # CHR 0xD8 # ''xyz'')"
    by (simp add: demoWorld_def)
  have run: "convertWebPToPNG demoEnv ''pics/b.WEBP'' ''pics/b.png'' demoWorld =
      (fst (convertWebPToPNG demoEnv ''pics/b.WEBP'' ''pics/b.png'' demoWorld),
       snd (convertWebPToPNG demoEnv ''pics/b.WEBP'' ''pics/b.png'' demoWorld))"
    by simp
  have env: "webpDecode demoEnv (CHR 0xFF # CHR 0xD8 # ''xyz'') = Inl ''riff: missing RIFF chunk header''"
    "jpegDecode demoEnv (CHR 0xFF # CHR 0xD8 # ''xyz'') = Inr ''xyz''"
    "createFault demoEnv ''pics/b.png'' = None"
    "pngEncode demoEnv ''xyz'' ''pics/b.png'' = (CHR 0x89 # ''PNGxyz'', None)"
    "syncFault demoEnv ''pics/b.png'' = None"
    by (simp_all add: demoEnv_def)
  from convert_decode_fallback [OF rd fl run] rd fl env show ?thesis
    by simp
qed

section \<open>The error after both decoders failed\<close>

text \<open>
  C2, as the code has it. When both decoders fail on a readable input, the call fails with
  the decode error, and this error wraps the message of the JPEG attempt alone: its text is
  the fixed text naming both formats followed by the JPEG decoder's message. The message of
  the WebP attempt was overwritten and is not part of it. Nothing but the read was done.
\<close>

theorem convert_decode_error_message:
  assumes "readFault env inputPath = None" and "files w (fileAt env inputPath) = Some inputData"
    and "webpDecode env inputData = Inl e1" and "jpegDecode env inputData = Inl e2"
  shows "convertWebPToPNG env inputPath outputPath w =
           (Some (DecodeFailed e2), w\<lparr>trace := trace w @ [CallReadFile inputPath]\<rparr>) \<and>
         errorText (DecodeFailed e2) = txt_decode_failed @ e2"
proof -
  from assms(3,4) have "decodeImage env inputData = Inl e2"
    by (simp add: decodeImage_jpeg)
  from convert_decode_failed [OF assms(1,2) this] show ?thesis
    by simp
qed

theorem convert_decode_error_message_witness:
  "readFault demoEnv ''pics/broken.webp'' = None \<and>
   files demoWorld ''pics/broken.webp'' = Some ''hello'' \<and>
   webpDecode demoEnv ''hello'' = Inl ''riff: missing RIFF chunk header'' \<and>
   jpegDecode demoEnv ''hello'' = Inl ''invalid JPEG format: missing SOI marker'' \<and>
   convertWebPToPNG demoEnv ''pics/broken.webp'' ''pics/broken.png'' demoWorld =
     (Some (DecodeFailed ''invalid JPEG format: missing SOI marker''),
      demoWorld\<lparr>trace := trace demoWorld @ [CallReadFile ''pics/broken.webp'']\<rparr>)"
proof -
  have h: "readFault demoEnv ''pics/broken.webp'' = None"
    "files demoWorld (fileAt demoEnv ''pics/broken.webp'') = Some ''hello''"
    "webpDecode demoEnv ''hello'' = Inl ''riff: missing RIFF chunk header''"
    "jpegDecode demoEnv ''hello'' = Inl ''invalid JPEG format: missing SOI marker''"
    by (simp_all add: demoEnv_def demoWorld_def)
  from convert_decode_error_message [OF h] h show ?thesis
    by simp
qed

text \<open>
  The claim as stated fails on a file that is neither WebP nor JPEG: the text of the
  returned error does not contain the message of the WebP decoder.
\<close>

theorem convert_decode_error_message_counterexample:
  "webpDecode demoEnv ''hello'' = Inl ''riff: missing RIFF chunk header'' \<and>
   jpegDecode demoEnv ''hello'' = Inl ''invalid JPEG format: missing SOI marker'' \<and>
   fst (convertWebPToPNG demoEnv ''pics/broken.webp'' ''pics/broken.png'' demoWorld) =
     Some (DecodeFailed ''invalid JPEG format: missing SOI marker'') \<and>
   \<not> sublist ''riff: missing RIFF chunk header''
       (errorText (DecodeFailed ''invalid JPEG format: missing SOI marker''))"
proof -
  have h: "readFault demoEnv ''pics/broken.webp'' = None"
    "files demoWorld (fileAt demoEnv ''pics/broken.webp'') = Some ''hello''"
    "decodeImage demoEnv ''hello'' = Inl ''invalid JPEG format: missing SOI marker''"
    by (simp_all add: demoEnv_def demoWorld_def decodeImage_def)
  have d: "webpDecode demoEnv ''hello'' = Inl ''riff: missing RIFF chunk header''"
    "jpegDecode demoEnv ''hello'' = Inl ''invalid JPEG format: missing SOI marker''"
    by (simp_all add: demoEnv_def)
  have s: "\<not> sublist ''riff: missing RIFF chunk header''
       (errorText (DecodeFailed ''invalid JPEG format: missing SOI marker''))"
    by (simp add: txt_decode_failed_def sublist_code)
  from convert_decode_failed [OF h] d s show ?thesis
    by simp
qed

section \<open>No destination is left by a failure before a successful encode\<close>

text \<open>
  C3. The destination is opened only when the input was read and decoded. A call that fails
  with the read or the decode error has done nothing but the read and leaves every file as it
  was; so does, apart from the attempt to open, a call that could not open the destination.
  When the encoder fails, the call returns the encode error after closing the destination,
  removing it and running the deferred close; unless the removal itself fails, no file is left
  at the destination path. A failed removal is ignored and leaves the incomplete file.
\<close>

theorem convert_failure_leaves_no_destination:
  assumes "convertWebPToPNG env inputPath outputPath w = (res, w')"
  shows "(CallCreate outputPath \<in> set (newCalls w w') \<longrightarrow>
            (\<exists>inputData img. readFault env inputPath = None \<and>
               files w (fileAt env inputPath) = Some inputData \<and> decodeImage env inputData = Inr img)) \<and>
         (readFault env inputPath \<noteq> None \<or> files w (fileAt env inputPath) = None \<longrightarrow>
            (\<exists>e. res = Some (ReadFailed e))) \<and>
         (\<forall>inputData e. readFault env inputPath = None \<and> files w (fileAt env inputPath) = Some inputData \<and>
            decodeImage env inputData = Inl e \<longrightarrow> res = Some (DecodeFailed e)) \<and>
         (\<forall>e. res = Some (ReadFailed e) \<or> res = Some (DecodeFailed e) \<longrightarrow>
            files w' = files w \<and> newCalls w w' = [CallReadFile inputPath]) \<and>
         (\<forall>e. res = Some (CreateFailed e) \<longrightarrow> files w' = files w) \<and>
         (\<forall>inputData img bs e. readFault env inputPath = None \<and>
            files w (fileAt env inputPath) = Some inputData \<and> decodeImage env inputData = Inr img \<and>
            createFault env outputPath = None \<and> pngEncode env img outputPath = (bs, Some e) \<longrightarrow>
            res = Some (EncodeFailed e) \<and>
            newCalls w w' = [CallReadFile inputPath, CallCreate outputPath,
                             CallEncode outputPath, CallClose outputPath,
                             CallRemove outputPath, CallClose outputPath] \<and>
            files w' = (if removeFault env outputPath then (files w)(fileAt env outputPath \<mapsto> bs)
                        else (files w)(fileAt env outputPath := None)))"
  by (cases rule: convert_cases [where env=env and inputPath=inputPath and w=w
        and outputPath=outputPath])
     (use assms in \<open>auto simp: convert_paths\<close>)

theorem convert_failure_leaves_no_destination_witness:
  "fst (convertWebPToPNG encodeFailEnv ''pics/a.webp'' ''out/a.png'' demoWorld) =
     Some (EncodeFailed ''no space left on device'') \<and>
   newCalls demoWorld (snd (convertWebPToPNG encodeFailEnv ''pics/a.webp'' ''out/a.png'' demoWorld)) =
     [CallReadFile ''pics/a.webp'', CallCreate ''out/a.png'', CallEncode ''out/a.png'',
      CallClose ''out/a.png'', CallRemove ''out/a.png'', CallClose ''out/a.png''] \<and>
   files (snd (convertWebPToPNG encodeFailEnv ''pics/a.webp'' ''out/a.png'' demoWorld)) =
     (files demoWorld)(''out/a.png'' := None) \<and>
   fst (convertWebPToPNG demoEnv ''pics/broken.webp'' ''out/broken.png'' demoWorld) =
     Some (DecodeFailed ''invalid JPEG format: missing SOI marker'') \<and>
   files (snd (convertWebPToPNG demoEnv ''pics/broken.webp'' ''out/broken.png'' demoWorld)) =
     files demoWorld"
proof -
  define r1 where "r1 = convertWebPToPNG encodeFailEnv ''pics/a.webp'' ''out/a.png'' demoWorld"
  define r2 where "r2 = convertWebPToPNG demoEnv ''pics/broken.webp'' ''out/broken.png'' demoWorld"
  have e: "readFault encodeFailEnv ''pics/a.webp'' = None \<and>
    files demoWorld (fileAt encodeFailEnv ''pics/a.webp'') = Some ''RIFFabc'' \<and>
    decodeImage encodeFailEnv ''RIFFabc'' = Inr ''abc'' \<and>
    createFault encodeFailEnv ''out/a.png'' = None \<and>
    pngEncode encodeFailEnv ''abc'' ''out/a.png'' = (CHR 0x89 # ''PN'', Some ''no space left on device'')"
    and nf: "\<not> removeFault encodeFailEnv ''out/a.png''"
    by (simp_all add: encodeFailEnv_def demoEnv_def demoWorld_def decodeImage_def)
  have d: "readFault demoEnv ''pics/broken.webp'' = None \<and>
    files demoWorld (fileAt demoEnv ''pics/broken.webp'') = Some ''hello'' \<and>
    decodeImage demoEnv ''hello'' = Inl ''invalid JPEG format: missing SOI marker''"
    by (simp_all add: demoEnv_def demoWorld_def decodeImage_def)
  note t1 = convert_failure_leaves_no_destination
         [where env=encodeFailEnv and inputPath="''pics/a.webp''" and outputPath="''out/a.png''"
            and w=demoWorld and res="fst r1" and w'="snd r1", unfolded r1_def [symmetric],
          OF pair_collapse]
  note t2 = convert_failure_leaves_no_destination
         [where env=demoEnv and inputPath="''pics/broken.webp''" and outputPath="''out/broken.png''"
            and w=demoWorld and res="fst r2" and w'="snd r2", unfolded r2_def [symmetric],
          OF pair_collapse]
  from t1 e nf have 1: "fst r1 = Some (EncodeFailed ''no space left on device'') \<and>
            newCalls demoWorld (snd r1) = [CallReadFile ''pics/a.webp'', CallCreate ''out/a.png'',
                             CallEncode ''out/a.png'', CallClose ''out/a.png'',
                             CallRemove ''out/a.png'', CallClose ''out/a.png''] \<and>
            files (snd r1) = (files demoWorld)(''out/a.png'' := None)"
    by simp
  from t2 d have 2: "fst r2 = Some (DecodeFailed ''invalid JPEG format: missing SOI marker'') \<and>
     files (snd r2) = files demoWorld"
    by simp
  from 1 2 show ?thesis unfolding r1_def r2_def by simp
qed

section \<open>Running the converter twice\<close>

text \<open>
  C9, as the code has it. When the output path names another file than the input path does
  (two different texts of one file do not count) and a first call returned no error, a
  second call with the same arguments in the same environment returns no error either and
  leaves every file as the first call left it: it opens the destination again, which
  truncates it, and writes the encoding of the same decoded image, so the destination holds
  that encoding once.
\<close>

theorem convert_twice:
  assumes "fileAt env inputPath \<noteq> fileAt env outputPath"
    and "convertWebPToPNG env inputPath outputPath w = (None, w1)"
    and "convertWebPToPNG env inputPath outputPath w1 = (res2, w2)"
  shows "res2 = None \<and> files w2 = files w1 \<and>
         CallCreate outputPath \<in> set (newCalls w1 w2) \<and>
         (\<exists>inputData img bs.
            files w (fileAt env inputPath) = Some inputData \<and> decodeImage env inputData = Inr img \<and>
            pngEncode env img outputPath = (bs, None) \<and>
            files w1 (fileAt env outputPath) = Some bs \<and> files w2 (fileAt env outputPath) = Some bs)"
proof -
  from convert_None_D [OF assms(2)] obtain inputData img bs where
    h: "readFault env inputPath = None" "files w (fileAt env inputPath) = Some inputData"
       "decodeImage env inputData = Inr img" "createFault env outputPath = None"
       "pngEncode env img outputPath = (bs, None)" "syncFault env outputPath = None"
    by blast
  from convert_succeeded [OF h] assms(2)
  have w1: "w1 = w\<lparr>files := (files w)(fileAt env outputPath \<mapsto> bs),
              trace := trace w @ [CallReadFile inputPath, CallCreate outputPath,
                                  CallEncode outputPath, CallSync outputPath,
                                  CallClose outputPath]\<rparr>"
    by simp
  with assms(1) h(2) have in1: "files w1 (fileAt env inputPath) = Some inputData"
    by simp
  from convert_succeeded [OF h(1) in1 h(3-6)] assms(3)
  have r2: "res2 = None"
    and w2: "w2 = w1\<lparr>files := (files w1)(fileAt env outputPath \<mapsto> bs),
              trace := trace w1 @ [CallReadFile inputPath, CallCreate outputPath,
                                  CallEncode outputPath, CallSync outputPath,
                                  CallClose outputPath]\<rparr>"
    by simp_all
  from w1 have o1: "files w1 (fileAt env outputPath) = Some bs"
    by simp
  with w2 have same: "files w2 = files w1"
    by (simp add: fun_upd_idem)
  from w2 have "CallCreate outputPath \<in> set (newCalls w1 w2)"
    by simp
  with r2 same o1 h show ?thesis
    by auto
qed

theorem convert_twice_witness:
  "fileAt demoEnv ''pics/a.webp'' \<noteq> fileAt demoEnv ''pics/a.png'' \<and>
   fst (convertWebPToPNG demoEnv ''pics/a.webp'' ''pics/a.png'' demoWorld) = None \<and>
   fst (convertWebPToPNG demoEnv ''pics/a.webp'' ''pics/a.png''
          (snd (convertWebPToPNG demoEnv ''pics/a.webp'' ''pics/a.png'' demoWorld))) = None \<and>
   files (snd (convertWebPToPNG demoEnv ''pics/a.webp'' ''pics/a.png''
          (snd (convertWebPToPNG demoEnv ''pics/a.webp'' ''pics/a.png'' demoWorld)))) =
     files (snd (convertWebPToPNG demoEnv ''pics/a.webp'' ''pics/a.png'' demoWorld))"
proof -
  define r1 where "r1 = convertWebPToPNG demoEnv ''pics/a.webp'' ''pics/a.png'' demoWorld"
  define r2 where "r2 = convertWebPToPNG demoEnv ''pics/a.webp'' ''pics/a.png'' (snd r1)"
  have h: "readFault demoEnv ''pics/a.webp'' = None"
    "files demoWorld (fileAt demoEnv ''pics/a.webp'') = Some ''RIFFabc''"
    "decodeImage demoEnv ''RIFFabc'' = Inr ''abc''"
    "createFault demoEnv ''pics/a.png'' = None"
    "pngEncode demoEnv ''abc'' ''pics/a.png'' = (CHR 0x89 # ''PNGabc'', None)"
    "syncFault demoEnv ''pics/a.png'' = None"
    by (simp_all add: demoEnv_def demoWorld_def decodeImage_def)
  have ne: "fileAt demoEnv ''pics/a.webp'' \<noteq> fileAt demoEnv ''pics/a.png''"
    by simp
  from convert_succeeded [OF h] have 1: "fst r1 = None"
    by (simp add: r1_def)
  then have run1: "convertWebPToPNG demoEnv ''pics/a.webp'' ''pics/a.png'' demoWorld = (None, snd r1)"
    by (simp add: r1_def prod_eq_iff)
  have run2: "convertWebPToPNG demoEnv ''pics/a.webp'' ''pics/a.png'' (snd r1) = (fst r2, snd r2)"
    by (simp add: r2_def)
  from convert_twice [OF ne run1 run2] have "fst r2 = None \<and> files (snd r2) = files (snd r1)"
    by simp
  with ne 1 show ?thesis
    unfolding r2_def r1_def by simp
qed

text \<open>
  The claim as stated fails when the output path names the file the input path names, be it
  by the same text or by another: the first call replaces the input by its PNG encoding,
  which neither decoder accepts, and the second call fails after the read, without opening
  the destination.
\<close>

theorem convert_twice_counterexample:
  "fst (convertWebPToPNG demoEnv ''pics/a.webp'' ''pics/a.webp'' demoWorld) = None \<and>
   fst (convertWebPToPNG demoEnv ''pics/a.webp'' ''pics/a.webp''
          (snd (convertWebPToPNG demoEnv ''pics/a.webp'' ''pics/a.webp'' demoWorld))) =
     Some (DecodeFailed ''invalid JPEG format: missing SOI marker'') \<and>
   newCalls (snd (convertWebPToPNG demoEnv ''pics/a.webp'' ''pics/a.webp'' demoWorld))
     (snd (convertWebPToPNG demoEnv ''pics/a.webp'' ''pics/a.webp''
          (snd (convertWebPToPNG demoEnv ''pics/a.webp'' ''pics/a.webp'' demoWorld)))) =
     [CallReadFile ''pics/a.webp''] \<and>
   fileAt aliasEnv ''./pics/a.webp'' = fileAt aliasEnv ''pics/a.webp'' \<and>
   fst (convertWebPToPNG aliasEnv ''./pics/a.webp'' ''pics/a.webp'' demoWorld) = None \<and>
   fst (convertWebPToPNG aliasEnv ''./pics/a.webp'' ''pics/a.webp''
          (snd (convertWebPToPNG aliasEnv ''./pics/a.webp'' ''pics/a.webp'' demoWorld))) =
     Some (DecodeFailed ''invalid JPEG format: missing SOI marker'')"
proof -
  have h: "readFault demoEnv ''pics/a.webp'' = None"
    "files demoWorld (fileAt demoEnv ''pics/a.webp'') = Some ''RIFFabc''"
    "decodeImage demoEnv ''RIFFabc'' = Inr ''abc''"
    "createFault demoEnv ''pics/a.webp'' = None"
    "pngEncode demoEnv ''abc'' ''pics/a.webp'' = (CHR 0x89 # ''PNGabc'', None)"
    "syncFault demoEnv ''pics/a.webp'' = None"
    by (simp_all add: demoEnv_def demoWorld_def decodeImage_def)
  note run1 = convert_succeeded [OF h]
  have d: "decodeImage demoEnv (CHR 0x89 # ''PNGabc'') =
             Inl ''invalid JPEG format: missing SOI marker''"
    by (simp add: demoEnv_def decodeImage_def)
  have f: "files (snd (convertWebPToPNG demoEnv ''pics/a.webp'' ''pics/a.webp'' demoWorld))
             (fileAt demoEnv ''pics/a.webp'') = Some (CHR 0x89 # ''PNGabc'')"
    by (simp add: run1)
  from convert_decode_failed [OF h(1) f d, where outputPath="''pics/a.webp''"] run1
  have 1: "fst (convertWebPToPNG demoEnv ''pics/a.webp'' ''pics/a.webp'' demoWorld) = None \<and>
   fst (convertWebPToPNG demoEnv ''pics/a.webp'' ''pics/a.webp''
          (snd (convertWebPToPNG demoEnv ''pics/a.webp'' ''pics/a.webp'' demoWorld))) =
     Some (DecodeFailed ''invalid JPEG format: missing SOI marker'') \<and>
   newCalls (snd (convertWebPToPNG demoEnv ''pics/a.webp'' ''pics/a.webp'' demoWorld))
     (snd (convertWebPToPNG demoEnv ''pics/a.webp'' ''pics/a.webp''
          (snd (convertWebPToPNG demoEnv ''pics/a.webp'' ''pics/a.webp'' demoWorld)))) =
     [CallReadFile ''pics/a.webp'']"
    by simp
  have al: "fileAt aliasEnv ''./pics/a.webp'' = ''pics/a.webp''"
    "fileAt aliasEnv ''pics/a.webp'' = ''pics/a.webp''"
    by (simp_all add: aliasEnv_def)
  have g: "readFault aliasEnv ''./pics/a.webp'' = None"
    "files demoWorld (fileAt aliasEnv ''./pics/a.webp'') = Some ''RIFFabc''"
    "decodeImage aliasEnv ''RIFFabc'' = Inr ''abc''"
    "createFault aliasEnv ''pics/a.webp'' = None"
    "pngEncode aliasEnv ''abc'' ''pics/a.webp'' = (CHR 0x89 # ''PNGabc'', None)"
    "syncFault aliasEnv ''pics/a.webp'' = None"
    by (simp_all add: al aliasEnv_def demoEnv_def demoWorld_def decodeImage_def)
  note arun1 = convert_succeeded [OF g]
  have ad: "decodeImage aliasEnv (CHR 0x89 # ''PNGabc'') =
             Inl ''invalid JPEG format: missing SOI marker''"
    by (simp add: aliasEnv_def demoEnv_def decodeImage_def)
  have af: "files (snd (convertWebPToPNG aliasEnv ''./pics/a.webp'' ''pics/a.webp'' demoWorld))
             (fileAt aliasEnv ''./pics/a.webp'') = Some (CHR 0x89 # ''PNGabc'')"
    by (simp add: arun1 al)
  from convert_decode_failed [OF g(1) af ad, where outputPath="''pics/a.webp''"] arun1
  have 2: "fst (convertWebPToPNG aliasEnv ''./pics/a.webp'' ''pics/a.webp'' demoWorld) = None \<and>
   fst (convertWebPToPNG aliasEnv ''./pics/a.webp'' ''pics/a.webp''
          (snd (convertWebPToPNG aliasEnv ''./pics/a.webp'' ''pics/a.webp'' demoWorld))) =
     Some (DecodeFailed ''invalid JPEG format: missing SOI marker'')"
    by simp
  from 1 2 al show ?thesis
    by simp
qed

section \<open>A failed sync\<close>

text \<open>
  C10, as the code has it. When decoding, opening and encoding succeeded and the sync fails,
  the call returns the sync error and makes no attempt to remove the destination, which
  holds exactly the bytes the encoder wrote (none, when the encoder wrote none): the file a
  call without the failure leaves. The batch loop records the file as a failure, with the
  text of the sync error, and counts no success, while the destination stays. A call that
  fails with the read, decode or create error leaves every file as it was. A call that fails
  with the encode error leaves no file at the destination when the removal works; when the
  removal fails, which the code ignores, it leaves the incomplete file there as well.
\<close>

theorem sync_failure_leaves_destination:
  assumes "convertWebPToPNG env inputPath outputPath w = (res, w')"
  shows "(\<forall>inputData img bs e.
            readFault env inputPath = None \<and> files w (fileAt env inputPath) = Some inputData \<and>
            decodeImage env inputData = Inr img \<and> createFault env outputPath = None \<and>
            pngEncode env img outputPath = (bs, None) \<and> syncFault env outputPath = Some e \<longrightarrow>
            res = Some (SyncFailed e) \<and> files w' = (files w)(fileAt env outputPath \<mapsto> bs) \<and>
            files w' (fileAt env outputPath) = Some bs \<and>
            CallRemove outputPath \<notin> set (newCalls w w') \<and>
            convertWebPToPNG (env\<lparr>syncFault := (\<lambda>p. None)\<rparr>) inputPath outputPath w =
              (None, w')) \<and>
         (\<forall>e. res = Some (SyncFailed e) \<longrightarrow>
            (\<exists>inputData img bs.
               files w (fileAt env inputPath) = Some inputData \<and> decodeImage env inputData = Inr img \<and>
               pngEncode env img outputPath = (bs, None) \<and>
               files w' = (files w)(fileAt env outputPath \<mapsto> bs))) \<and>
         (\<forall>e. res = Some (SyncFailed e) \<and> inputPath = join inputDir webpFile \<and>
              outputPath = outputPathOf inputDir outputDir webpFile \<longrightarrow>
            fst (processFile env inputDir outputDir webpFile (t, w)) =
              addError webpFile
                (txt_convert_error @ webpFile @ '': '' @ txt_sync_failed @ e) t \<and>
            successCount (fst (processFile env inputDir outputDir webpFile (t, w))) =
              successCount t \<and>
            files (snd (processFile env inputDir outputDir webpFile (t, w))) = files w') \<and>
         (\<forall>e. res = Some (ReadFailed e) \<or> res = Some (DecodeFailed e) \<or>
              res = Some (CreateFailed e) \<longrightarrow>
            files w' = files w) \<and>
         (\<forall>e. res = Some (EncodeFailed e) \<longrightarrow>
            (\<exists>img bs. pngEncode env img outputPath = (bs, Some e) \<and>
               files w' = (if removeFault env outputPath
                           then (files w)(fileAt env outputPath \<mapsto> bs)
                           else (files w)(fileAt env outputPath := None))))"
proof -
  have a: "\<forall>inputData img bs e.
            readFault env inputPath = None \<and> files w (fileAt env inputPath) = Some inputData \<and>
            decodeImage env inputData = Inr img \<and> createFault env outputPath = None \<and>
            pngEncode env img outputPath = (bs, None) \<and> syncFault env outputPath = Some e \<longrightarrow>
            res = Some (SyncFailed e) \<and> files w' = (files w)(fileAt env outputPath \<mapsto> bs) \<and>
            files w' (fileAt env outputPath) = Some bs \<and>
            CallRemove outputPath \<notin> set (newCalls w w') \<and>
            convertWebPToPNG (env\<lparr>syncFault := (\<lambda>p. None)\<rparr>) inputPath outputPath w =
              (None, w')"
  proof (intro allI impI, elim conjE)
    fix inputData img bs e
    assume h: "readFault env inputPath = None" "files w (fileAt env inputPath) = Some inputData"
      "decodeImage env inputData = Inr img" "createFault env outputPath = None"
      "pngEncode env img outputPath = (bs, None)" "syncFault env outputPath = Some e"
    have "convertWebPToPNG (env\<lparr>syncFault := (\<lambda>p. None)\<rparr>) inputPath outputPath w =
            (None, w\<lparr>files := (files w)(fileAt env outputPath \<mapsto> bs),
              trace := trace w @ [CallReadFile inputPath, CallCreate outputPath,
                                  CallEncode outputPath, CallSync outputPath,
                                  CallClose outputPath]\<rparr>)"
      using h(1-5)
        convert_succeeded [where env="env\<lparr>syncFault := (\<lambda>p. None)\<rparr>" and inputPath=inputPath
          and w=w and inputData=inputData and img=img and outputPath=outputPath and bs=bs]
      by simp
    with convert_sync_failed [OF h] assms
    show "res = Some (SyncFailed e) \<and> files w' = (files w)(fileAt env outputPath \<mapsto> bs) \<and>
            files w' (fileAt env outputPath) = Some bs \<and>
            CallRemove outputPath \<notin> set (newCalls w w') \<and>
            convertWebPToPNG (env\<lparr>syncFault := (\<lambda>p. None)\<rparr>) inputPath outputPath w =
              (None, w')"
      by auto
  qed
  have b: "\<forall>e. res = Some (SyncFailed e) \<longrightarrow>
            (\<exists>inputData img bs.
               files w (fileAt env inputPath) = Some inputData \<and> decodeImage env inputData = Inr img \<and>
               pngEncode env img outputPath = (bs, None) \<and>
               files w' = (files w)(fileAt env outputPath \<mapsto> bs))"
  proof (intro allI impI)
    fix e
    assume "res = Some (SyncFailed e)"
    with assms have r: "convertWebPToPNG env inputPath outputPath w = (Some (SyncFailed e), w')"
      by simp
    from convert_SyncFailed_D [OF r] obtain inputData img bs where
      h: "readFault env inputPath = None" "files w (fileAt env inputPath) = Some inputData"
      "decodeImage env inputData = Inr img" "createFault env outputPath = None"
      "pngEncode env img outputPath = (bs, None)" "syncFault env outputPath = Some e"
      by blast
    from convert_sync_failed [OF h] r have "files w' = (files w)(fileAt env outputPath \<mapsto> bs)"
      by auto
    with h show "\<exists>inputData img bs.
               files w (fileAt env inputPath) = Some inputData \<and> decodeImage env inputData = Inr img \<and>
               pngEncode env img outputPath = (bs, None) \<and>
               files w' = (files w)(fileAt env outputPath \<mapsto> bs)"
      by blast
  qed
  have c: "\<forall>e. res = Some (SyncFailed e) \<and> inputPath = join inputDir webpFile \<and>
              outputPath = outputPathOf inputDir outputDir webpFile \<longrightarrow>
            fst (processFile env inputDir outputDir webpFile (t, w)) =
              addError webpFile
                (txt_convert_error @ webpFile @ '': '' @ txt_sync_failed @ e) t \<and>
            successCount (fst (processFile env inputDir outputDir webpFile (t, w))) =
              successCount t \<and>
            files (snd (processFile env inputDir outputDir webpFile (t, w))) = files w'"
    using assms by (auto simp: processFile_failed addError_def printErr_def)
  have d: "\<forall>e. res = Some (ReadFailed e) \<or> res = Some (DecodeFailed e) \<or>
              res = Some (CreateFailed e) \<longrightarrow>
            files w' = files w"
    by (cases rule: convert_cases [where env=env and inputPath=inputPath and w=w
          and outputPath=outputPath])
       (use assms in \<open>auto simp: convert_paths\<close>)
  have e: "\<forall>e. res = Some (EncodeFailed e) \<longrightarrow>
            (\<exists>img bs. pngEncode env img outputPath = (bs, Some e) \<and>
               files w' = (if removeFault env outputPath
                           then (files w)(fileAt env outputPath \<mapsto> bs)
                           else (files w)(fileAt env outputPath := None)))"
  proof (intro allI impI)
    fix e
    assume "res = Some (EncodeFailed e)"
    with assms have r: "convertWebPToPNG env inputPath outputPath w = (Some (EncodeFailed e), w')"
      by simp
    from convert_EncodeFailed_D [OF r] obtain inputData img bs where
      h: "readFault env inputPath = None" "files w (fileAt env inputPath) = Some inputData"
      "decodeImage env inputData = Inr img" "createFault env outputPath = None"
      "pngEncode env img outputPath = (bs, Some e)"
      by blast
    from convert_encode_failed [OF h] r
    have "files w' = (if removeFault env outputPath
                           then (files w)(fileAt env outputPath \<mapsto> bs)
                           else (files w)(fileAt env outputPath := None))"
      by auto
    with h(5) show "\<exists>img bs. pngEncode env img outputPath = (bs, Some e) \<and>
               files w' = (if removeFault env outputPath
                           then (files w)(fileAt env outputPath \<mapsto> bs)
                           else (files w)(fileAt env outputPath := None))"
      by blast
  qed
  from a b c d e show ?thesis
    by (intro conjI)
qed

theorem sync_failure_leaves_destination_witness:
  "fst (convertWebPToPNG syncFailEnv ''pics/a.webp'' ''pics/a.png'' demoWorld) =
     Some (SyncFailed ''input/output error'') \<and>
   files (snd (convertWebPToPNG syncFailEnv ''pics/a.webp'' ''pics/a.png'' demoWorld)) =
     (files demoWorld)(''pics/a.png'' \<mapsto> CHR 0x89 # ''PNGabc'') \<and>
   CallRemove ''pics/a.png''
     \<notin> set (newCalls demoWorld
               (snd (convertWebPToPNG syncFailEnv ''pics/a.webp'' ''pics/a.png'' demoWorld))) \<and>
   fst (processFile syncFailEnv ''pics'' [] ''a.webp'' (\<lparr>errors = [], successCount = 0\<rparr>, demoWorld)) =
     \<lparr>errors = [\<lparr>fileName = ''a.webp'',
                   errorMsg = txt_convert_error @ ''a.webp'' @ '': '' @ txt_sync_failed @
                              ''input/output error''\<rparr>],
      successCount = 0\<rparr> \<and>
   files (snd (processFile syncFailEnv ''pics'' [] ''a.webp''
                 (\<lparr>errors = [], successCount = 0\<rparr>, demoWorld))) ''pics/a.png'' =
     Some (CHR 0x89 # ''PNGabc'') \<and>
   fst (convertWebPToPNG removeFailEnv ''pics/a.webp'' ''out/a.png'' demoWorld) =
     Some (EncodeFailed ''no space left on device'') \<and>
   files (snd (convertWebPToPNG removeFailEnv ''pics/a.webp'' ''out/a.png'' demoWorld)) =
     (files demoWorld)(''out/a.png'' \<mapsto> CHR 0x89 # ''PN'')"
proof -
  define r where "r = convertWebPToPNG syncFailEnv ''pics/a.webp'' ''pics/a.png'' demoWorld"
  define q where "q = convertWebPToPNG removeFailEnv ''pics/a.webp'' ''out/a.png'' demoWorld"
  have p: "''pics/a.webp'' = join ''pics'' ''a.webp''"
    "''pics/a.png'' = outputPathOf ''pics'' [] ''a.webp''"
    by (simp_all add: join_def clean_def cleanStep_def outputPathOf_def pngNameOf_def
          ext_def trimSuffix_def hasSuffix_def)
  have h: "readFault syncFailEnv ''pics/a.webp'' = None"
    "files demoWorld (fileAt syncFailEnv ''pics/a.webp'') = Some ''RIFFabc''"
    "decodeImage syncFailEnv ''RIFFabc'' = Inr ''abc''"
    "createFault syncFailEnv ''pics/a.png'' = None"
    "pngEncode syncFailEnv ''abc'' ''pics/a.png'' = (CHR 0x89 # ''PNGabc'', None)"
    "syncFault syncFailEnv ''pics/a.png'' = Some ''input/output error''"
    by (simp_all add: syncFailEnv_def demoEnv_def demoWorld_def decodeImage_def)
  note t = sync_failure_leaves_destination
         [where env=syncFailEnv and inputPath="''pics/a.webp''" and outputPath="''pics/a.png''"
            and w=demoWorld and res="fst r" and w'="snd r" and inputDir="''pics''"
            and outputDir="[]" and webpFile="''a.webp''"
            and t="\<lparr>errors = [], successCount = 0\<rparr>",
          unfolded r_def [symmetric], OF pair_collapse]
  from t h have 1: "fst r = Some (SyncFailed ''input/output error'')"
    "files (snd r) = (files demoWorld)(''pics/a.png'' \<mapsto> CHR 0x89 # ''PNGabc'')"
    "CallRemove ''pics/a.png'' \<notin> set (newCalls demoWorld (snd r))"
    by simp_all
  from t 1(1) p have "fst (processFile syncFailEnv ''pics'' [] ''a.webp''
                          (\<lparr>errors = [], successCount = 0\<rparr>, demoWorld)) =
              addError ''a.webp''
                (txt_convert_error @ ''a.webp'' @ '': '' @ txt_sync_failed @ ''input/output error'')
                \<lparr>errors = [], successCount = 0\<rparr> \<and>
            files (snd (processFile syncFailEnv ''pics'' [] ''a.webp''
                     (\<lparr>errors = [], successCount = 0\<rparr>, demoWorld))) = files (snd r)"
    by simp
  with 1(2)
  have 2: "fst (processFile syncFailEnv ''pics'' [] ''a.webp'' (\<lparr>errors = [], successCount = 0\<rparr>, demoWorld)) =
     \<lparr>errors = [\<lparr>fileName = ''a.webp'',
                   errorMsg = txt_convert_error @ ''a.webp'' @ '': '' @ txt_sync_failed @
                              ''input/output error''\<rparr>],
      successCount = 0\<rparr>"
    "files (snd (processFile syncFailEnv ''pics'' [] ''a.webp''
                 (\<lparr>errors = [], successCount = 0\<rparr>, demoWorld))) ''pics/a.png'' =
     Some (CHR 0x89 # ''PNGabc'')"
    by (simp_all add: addError_def)
  have g: "readFault removeFailEnv ''pics/a.webp'' = None"
    "files demoWorld (fileAt removeFailEnv ''pics/a.webp'') = Some ''RIFFabc''"
    "decodeImage removeFailEnv ''RIFFabc'' = Inr ''abc''"
    "createFault removeFailEnv ''out/a.png'' = None"
    "pngEncode removeFailEnv ''abc'' ''out/a.png'' =
       (CHR 0x89 # ''PN'', Some ''no space left on device'')"
    and rf: "removeFault removeFailEnv ''out/a.png''"
    and enc: "\<And>img. pngEncode removeFailEnv img ''out/a.png'' =
       (CHR 0x89 # ''PN'', Some ''no space left on device'')"
    by (simp_all add: removeFailEnv_def encodeFailEnv_def demoEnv_def demoWorld_def
          decodeImage_def)
  from convert_encode_failed [OF g] have 3: "fst q = Some (EncodeFailed ''no space left on device'')"
    by (simp add: q_def)
  note u = sync_failure_leaves_destination
         [where env=removeFailEnv and inputPath="''pics/a.webp''" and outputPath="''out/a.png''"
            and w=demoWorld and res="fst q" and w'="snd q",
          unfolded q_def [symmetric], OF pair_collapse]
  from u 3 rf enc have 4: "files (snd q) = (files demoWorld)(''out/a.png'' \<mapsto> CHR 0x89 # ''PN'')"
    by simp
  from 1 2 3 4 show ?thesis
    unfolding r_def q_def by simp
qed

text \<open>
  The claim as stated fails in two places. With a removal that fails, the call that
  returns the encode error leaves the incomplete file at the destination, so the failed sync
  is not the only error path that leaves a file. With an encoder that reports no error and
  writes nothing, the file left by the failed sync is empty.
\<close>

theorem sync_failure_leaves_destination_counterexample:
  "fst (convertWebPToPNG removeFailEnv ''pics/a.webp'' ''out/a.png'' demoWorld) =
     Some (EncodeFailed ''no space left on device'') \<and>
   files demoWorld ''out/a.png'' = None \<and>
   files (snd (convertWebPToPNG removeFailEnv ''pics/a.webp'' ''out/a.png'' demoWorld))
     ''out/a.png'' = Some (CHR 0x89 # ''PN'') \<and>
   fst (convertWebPToPNG syncFailEnv ''pics/e.webp'' ''pics/e.png'' demoWorld) =
     Some (SyncFailed ''input/output error'') \<and>
   files (snd (convertWebPToPNG syncFailEnv ''pics/e.webp'' ''pics/e.png'' demoWorld))
     ''pics/e.png'' = Some []"
proof -
  have g: "readFault removeFailEnv ''pics/a.webp'' = None"
    "files demoWorld (fileAt removeFailEnv ''pics/a.webp'') = Some ''RIFFabc''"
    "decodeImage removeFailEnv ''RIFFabc'' = Inr ''abc''"
    "createFault removeFailEnv ''out/a.png'' = None"
    "pngEncode removeFailEnv ''abc'' ''out/a.png'' =
       (CHR 0x89 # ''PN'', Some ''no space left on device'')"
    and rf: "removeFault removeFailEnv ''out/a.png''"
    and before: "files demoWorld ''out/a.png'' = None"
    by (simp_all add: removeFailEnv_def encodeFailEnv_def demoEnv_def demoWorld_def
          decodeImage_def)
  have h: "readFault syncFailEnv ''pics/e.webp'' = None"
    "files demoWorld (fileAt syncFailEnv ''pics/e.webp'') = Some ''RIFF''"
    "decodeImage syncFailEnv ''RIFF'' = Inr []"
    "createFault syncFailEnv ''pics/e.png'' = None"
    "pngEncode syncFailEnv [] ''pics/e.png'' = ([], None)"
    "syncFault syncFailEnv ''pics/e.png'' = Some ''input/output error''"
    by (simp_all add: syncFailEnv_def demoEnv_def demoWorld_def decodeImage_def)
  from convert_encode_failed [OF g] convert_sync_failed [OF h] rf before show ?thesis
    by simp
qed

section \<open>The check of the destination in batch mode\<close>



section \<open>The files selected from the listing\<close>

text \<open>
  C7. The names collected by the first loop are the names of the eligible entries of the
  listing (the entries that are not directories and whose name ends in the extension
  \<^verbatim>\<open>.webp\<close> in any case), in the order of the listing and nothing else. A run that returns no
  error reads exactly these files of the input directory, each once, and lists no directory
  but the input directory, once: no subdirectory is entered.
\<close>

theorem selected_files_are_eligible_entries:
  "selectWebP entries [] = map entryName (filter eligible entries) \<and>
   set (selectWebP entries []) =
     {entryName entry | entry. entry \<in> set entries \<and> \<not> entryIsDir entry \<and>
                               endsInWebpExtension (entryName entry)} \<and>
   (\<forall>w'. readDir env inputDir = Inr entries \<and>
         convertDirectory env inputDir outputDir w = (None, w') \<longrightarrow>
      readFilePaths (newCalls w w') =
        map (join inputDir) (map entryName (filter eligible entries)) \<and>
      readDirPaths (newCalls w w') = [inputDir])"
proof -
  have a: "selectWebP entries [] = map entryName (filter eligible entries)"
    by (simp add: selectWebP_filter)
  then have b: "set (selectWebP entries []) =
     {entryName entry | entry. entry \<in> set entries \<and> \<not> entryIsDir entry \<and>
                               endsInWebpExtension (entryName entry)}"
    by (auto simp: eligible_def)
  have c: "\<forall>w'. readDir env inputDir = Inr entries \<and>
         convertDirectory env inputDir outputDir w = (None, w') \<longrightarrow>
      readFilePaths (newCalls w w') =
        map (join inputDir) (map entryName (filter eligible entries)) \<and>
      readDirPaths (newCalls w w') = [inputDir]"
    using convertDirectory_calls [of env inputDir entries outputDir w] a
    by auto
  from a b c show ?thesis
    by (intro conjI)
qed

theorem selected_files_are_eligible_entries_witness:
  "readDir demoEnv ''pics'' = Inr demoEntries \<and>
   fst (convertDirectory demoEnv ''pics'' [] demoWorld) = None \<and>
   selectWebP demoEntries [] = [''a.webp'', ''b.WEBP'', ''broken.webp'', ''e.webp''] \<and>
   readFilePaths (newCalls demoWorld (snd (convertDirectory demoEnv ''pics'' [] demoWorld))) =
     map (join ''pics'') [''a.webp'', ''b.WEBP'', ''broken.webp'', ''e.webp''] \<and>
   readDirPaths (newCalls demoWorld (snd (convertDirectory demoEnv ''pics'' [] demoWorld))) =
     [''pics'']"
proof -
  define r where "r = convertDirectory demoEnv ''pics'' [] demoWorld"
  have rd: "readDir demoEnv ''pics'' = Inr demoEntries"
    by (simp add: demoEnv_def)
  have el: "map entryName (filter eligible demoEntries) =
              [''a.webp'', ''b.WEBP'', ''broken.webp'', ''e.webp'']"
    by (simp add: demoEntries_def eligible_def hasSuffix_webp_iff [symmetric]
          hasSuffix_def toLower_def toLowerByte_def)
  note t = selected_files_are_eligible_entries
      [where entries=demoEntries and env=demoEnv and inputDir="''pics''" and outputDir="[]"
         and w=demoWorld]
  from t el have sel: "selectWebP demoEntries [] = [''a.webp'', ''b.WEBP'', ''broken.webp'', ''e.webp'']"
    by simp
  then have ne: "selectWebP demoEntries [] \<noteq> []"
    by simp
  from convertDirectory_run [OF rd ne, of "[]" demoWorld] have ok: "fst r = None"
    by (simp add: r_def)
  then have run: "convertDirectory demoEnv ''pics'' [] demoWorld = (None, snd r)"
    by (simp add: r_def prod_eq_iff)
  from t rd run el have "readFilePaths (newCalls demoWorld (snd r)) =
     map (join ''pics'') [''a.webp'', ''b.WEBP'', ''broken.webp'', ''e.webp''] \<and>
     readDirPaths (newCalls demoWorld (snd r)) = [''pics'']"
    by simp
  with rd ok sel show ?thesis
    unfolding r_def by simp
qed

section \<open>The destination path\<close>

text \<open>
  C8. For a file whose name ends in the extension \<^verbatim>\<open>.webp\<close> in any case, the extension found
  by \<^verbatim>\<open>filepath.Ext\<close> is these last five bytes, the name of the destination is the rest of
  the name followed by \<^verbatim>\<open>.png\<close>, and the destination path joins it to the output directory,
  or to the input directory when no output directory is given: for a name without a
  separator, as a listing gives it, the path is the cleaned directory, a slash and this name
  (the name alone when the directory is the current one). In the single-file branch an
  output argument that is given is used as it is; when it is omitted the output path is the
  input path with the extension of its last element replaced by \<^verbatim>\<open>.png\<close>, or with
  \<^verbatim>\<open>.png\<close> appended when the last element has no dot; what comes before stays the same.
\<close>

theorem destination_path_derivation:
  "(endsInWebpExtension webpFile \<longrightarrow>
      (\<exists>stem suffix.
         webpFile = stem @ suffix \<and> length suffix = 5 \<and> ext webpFile = suffix \<and>
         pngNameOf webpFile = stem @ ''.png'' \<and>
         outputPathOf inputDir outputDir webpFile =
           join (if outputDir = [] then inputDir else outputDir) (stem @ ''.png'') \<and>
         (CHR ''/'' \<notin> set webpFile \<longrightarrow>
            outputPathOf inputDir outputDir webpFile =
              (if clean (if outputDir = [] then inputDir else outputDir) = ''.''
               then stem @ ''.png''
               else if clean (if outputDir = [] then inputDir else outputDir) = ''/''
               then ''/'' @ stem @ ''.png''
               else clean (if outputDir = [] then inputDir else outputDir) @ ''/'' @
                    stem @ ''.png'')))) \<and>
   (\<forall>dir stem e. input = dir @ stem @ CHR ''.'' # e \<and> CHR ''.'' \<notin> set e \<and>
        CHR ''/'' \<notin> set e \<longrightarrow>
      defaultOutput input [] = dir @ stem @ ''.png'') \<and>
   (\<forall>dir base. input = dir @ base \<and> (dir = [] \<or> last dir = CHR ''/'') \<and>
        CHR ''.'' \<notin> set base \<and> CHR ''/'' \<notin> set base \<longrightarrow>
      defaultOutput input [] = input @ ''.png'') \<and>
   (output \<noteq> [] \<longrightarrow> defaultOutput input output = output)"
proof -
  have a: "endsInWebpExtension webpFile \<longrightarrow>
      (\<exists>stem suffix.
         webpFile = stem @ suffix \<and> length suffix = 5 \<and> ext webpFile = suffix \<and>
         pngNameOf webpFile = stem @ ''.png'' \<and>
         outputPathOf inputDir outputDir webpFile =
           join (if outputDir = [] then inputDir else outputDir) (stem @ ''.png'') \<and>
         (CHR ''/'' \<notin> set webpFile \<longrightarrow>
            outputPathOf inputDir outputDir webpFile =
              (if clean (if outputDir = [] then inputDir else outputDir) = ''.''
               then stem @ ''.png''
               else if clean (if outputDir = [] then inputDir else outputDir) = ''/''
               then ''/'' @ stem @ ''.png''
               else clean (if outputDir = [] then inputDir else outputDir) @ ''/'' @
                    stem @ ''.png'')))"
  proof
    assume "endsInWebpExtension webpFile"
    from pngNameOf_eligible [OF this] obtain stem suffix where
      s: "webpFile = stem @ suffix" "length suffix = 5" "ext webpFile = suffix"
        "pngNameOf webpFile = stem @ ''.png''"
      by blast
    then have o: "outputPathOf inputDir outputDir webpFile =
           join (if outputDir = [] then inputDir else outputDir) (stem @ ''.png'')"
      by (simp add: outputPathOf_def)
    have "outputPathOf inputDir outputDir webpFile =
              (if clean (if outputDir = [] then inputDir else outputDir) = ''.''
               then stem @ ''.png''
               else if clean (if outputDir = [] then inputDir else outputDir) = ''/''
               then ''/'' @ stem @ ''.png''
               else clean (if outputDir = [] then inputDir else outputDir) @ ''/'' @
                    stem @ ''.png'')"
      if "CHR ''/'' \<notin> set webpFile"
    proof -
      from that s(1) have "plainName (stem @ ''.png'')"
        by (auto simp: plainName_def append_eq_Cons_conv)
      from join_plain [OF this] o show ?thesis
        by simp
    qed
    with s o show "\<exists>stem suffix.
         webpFile = stem @ suffix \<and> length suffix = 5 \<and> ext webpFile = suffix \<and>
         pngNameOf webpFile = stem @ ''.png'' \<and>
         outputPathOf inputDir outputDir webpFile =
           join (if outputDir = [] then inputDir else outputDir) (stem @ ''.png'') \<and>
         (CHR ''/'' \<notin> set webpFile \<longrightarrow>
            outputPathOf inputDir outputDir webpFile =
              (if clean (if outputDir = [] then inputDir else outputDir) = ''.''
               then stem @ ''.png''
               else if clean (if outputDir = [] then inputDir else outputDir) = ''/''
               then ''/'' @ stem @ ''.png''
               else clean (if outputDir = [] then inputDir else outputDir) @ ''/'' @
                    stem @ ''.png''))"
      by blast
  qed
  have b: "\<forall>dir stem e. input = dir @ stem @ CHR ''.'' # e \<and> CHR ''.'' \<notin> set e \<and>
        CHR ''/'' \<notin> set e \<longrightarrow>
      defaultOutput input [] = dir @ stem @ ''.png''"
  proof (intro allI impI, elim conjE)
    fix dir stem e
    assume h: "input = dir @ stem @ CHR ''.'' # e" "CHR ''.'' \<notin> set e" "CHR ''/'' \<notin> set e"
    from pngNameOf_dotted [OF h(2,3), of "dir @ stem"] h(1)
    show "defaultOutput input [] = dir @ stem @ ''.png''"
      by (simp add: defaultOutput_def pngNameOf_def)
  qed
  have c: "\<forall>dir base. input = dir @ base \<and> (dir = [] \<or> last dir = CHR ''/'') \<and>
        CHR ''.'' \<notin> set base \<and> CHR ''/'' \<notin> set base \<longrightarrow>
      defaultOutput input [] = input @ ''.png''"
  proof (intro allI impI, elim conjE)
    fix dir base
    assume h: "input = dir @ base" "dir = [] \<or> last dir = CHR ''/''"
      "CHR ''.'' \<notin> set base" "CHR ''/'' \<notin> set base"
    from ext_without_dot [OF h(3,4,2)] h(1)
    show "defaultOutput input [] = input @ ''.png''"
      by (simp add: defaultOutput_def)
  qed
  have d: "output \<noteq> [] \<longrightarrow> defaultOutput input output = output"
    by (simp add: defaultOutput_def)
  from a b c d show ?thesis
    by (intro conjI)
qed

theorem destination_path_derivation_witness:
  "endsInWebpExtension ''b.WEBP'' \<and>
   pngNameOf ''b.WEBP'' = ''b.png'' \<and>
   outputPathOf ''pics'' ''out'' ''b.WEBP'' = ''out/b.png'' \<and>
   outputPathOf ''pics'' [] ''b.WEBP'' = ''pics/b.png'' \<and>
   defaultOutput ''pics.d/photo.old.webp'' [] = ''pics.d/photo.old.png'' \<and>
   defaultOutput ''pics.d/photo'' [] = ''pics.d/photo.png'' \<and>
   defaultOutput ''a.webp'' ''b.png'' = ''b.png''"
proof -
  have e: "endsInWebpExtension ''b.WEBP''"
    by (simp add: hasSuffix_webp_iff [symmetric] hasSuffix_def toLower_def toLowerByte_def)
  note t1 = destination_path_derivation
      [where webpFile="''b.WEBP''" and inputDir="''pics''" and outputDir="''out''"
         and ?input="''pics.d/photo.old.webp''" and ?output="''b.png''"]
  note t2 = destination_path_derivation
      [where webpFile="''b.WEBP''" and inputDir="''pics''" and outputDir="[]"
         and ?input="''pics.d/photo''" and ?output="''b.png''"]
  from t1 e obtain stem suffix where
    s: "''b.WEBP'' = stem @ suffix" "length suffix = 5"
      "pngNameOf ''b.WEBP'' = stem @ ''.png''"
      "outputPathOf ''pics'' ''out'' ''b.WEBP'' = join ''out'' (stem @ ''.png'')"
    by auto
  from s(1,2) have "stem = ''b''"
    by (auto simp: length_Suc_conv numeral_eq_Suc append_eq_Cons_conv)
  with s have 1: "pngNameOf ''b.WEBP'' = ''b.png''"
    "outputPathOf ''pics'' ''out'' ''b.WEBP'' = ''out/b.png''"
    by (simp_all add: join_def clean_def cleanStep_def)
  from 1(1) have 2: "outputPathOf ''pics'' [] ''b.WEBP'' = ''pics/b.png''"
    by (simp add: outputPathOf_def join_def clean_def cleanStep_def)
  from t1 have "\<forall>dir stem e. ''pics.d/photo.old.webp'' = dir @ stem @ CHR ''.'' # e \<and>
        CHR ''.'' \<notin> set e \<and> CHR ''/'' \<notin> set e \<longrightarrow>
      defaultOutput ''pics.d/photo.old.webp'' [] = dir @ stem @ ''.png''"
    by blast
  from this [rule_format, of "''pics.d/''" "''photo.old''" "''webp''"]
  have 3: "defaultOutput ''pics.d/photo.old.webp'' [] = ''pics.d/photo.old.png''"
    by simp
  from t2 have "\<forall>dir base. ''pics.d/photo'' = dir @ base \<and> (dir = [] \<or> last dir = CHR ''/'') \<and>
        CHR ''.'' \<notin> set base \<and> CHR ''/'' \<notin> set base \<longrightarrow>
      defaultOutput ''pics.d/photo'' [] = ''pics.d/photo'' @ ''.png''"
    by blast
  from this [rule_format, of "''pics.d/''" "''photo''"]
  have 4: "defaultOutput ''pics.d/photo'' [] = ''pics.d/photo.png''"
    by simp
  from t1 have 5: "defaultOutput ''a.webp'' ''b.png'' = ''b.png''"
    by (simp add: defaultOutput_def)
  from e 1 2 3 4 5 show ?thesis
    by simp
qed

section \<open>Which failures end the batch\<close>

text \<open>
  C5. \<^verbatim>\<open>convertDirectory\<close> returns an error exactly when the input directory cannot be
  listed, or when files were selected, an output directory different from the input directory
  is given and it cannot be created. In both cases no file was read and every file is as it
  was: the only calls made are the listing and, in the second case, the creation of the
  directory. When it returns no error it has read every selected file, in order, whatever
  the conversions gave. A conversion that fails appends to the list of errors one entry with
  the name of the file and the message made of the fixed text, the name and the text of the
  error, prints this message, counts no success, and the loop goes on with the rest of the
  files. A destination found empty after a conversion that returned no error appends one
  entry with the name of the file and the message of the check, counts no success, and the
  loop goes on; the check of a destination that does not exist appends its entry likewise.
\<close>

theorem batch_failures_do_not_abort:
  assumes "convertDirectory env inputDir outputDir w = (res, w')"
  shows "((\<exists>e. res = Some e) \<longleftrightarrow>
            (\<exists>e. readDir env inputDir = Inl e) \<or>
            (\<exists>entries e. readDir env inputDir = Inr entries \<and> selectWebP entries [] \<noteq> [] \<and>
               outputDir \<noteq> [] \<and> outputDir \<noteq> inputDir \<and>
               mkdirAllFault env outputDir = Some e)) \<and>
         (\<forall>e. res = Some e \<longrightarrow>
            files w' = files w \<and> readFilePaths (newCalls w w') = [] \<and>
            (newCalls w w' = [CallReadDir inputDir] \<or>
             newCalls w w' = [CallReadDir inputDir, CallMkdirAll outputDir])) \<and>
         (\<forall>entries. readDir env inputDir = Inr entries \<and> res = None \<longrightarrow>
            readFilePaths (newCalls w w') = map (join inputDir) (selectWebP entries [])) \<and>
         (\<forall>t w0 err w1 rest.
            convertWebPToPNG env (join inputDir f) (outputPathOf inputDir outputDir f) w0 =
              (Some err, w1) \<longrightarrow>
            errors (fst (processFile env inputDir outputDir f (t, w0))) =
              errors t @ [\<lparr>fileName = f,
                           errorMsg = txt_convert_error @ f @ '': '' @ errorText err\<rparr>] \<and>
            successCount (fst (processFile env inputDir outputDir f (t, w0))) =
              successCount t \<and>
            stderr (snd (processFile env inputDir outputDir f (t, w0))) =
              stderr w1 @ txt_convert_error @ f @ '': '' @ errorText err @ nl \<and>
            files (snd (processFile env inputDir outputDir f (t, w0))) = files w1 \<and>
            processFiles env inputDir outputDir (f # rest) (t, w0) =
              processFiles env inputDir outputDir rest
                (processFile env inputDir outputDir f (t, w0))) \<and>
         (\<forall>t w0 w1 rest.
            convertWebPToPNG env (join inputDir f) (outputPathOf inputDir outputDir f) w0 =
              (None, w1) \<and>
            files w1 (fileAt env (outputPathOf inputDir outputDir f)) = Some [] \<longrightarrow>
            errors (fst (processFile env inputDir outputDir f (t, w0))) =
              errors t @ [\<lparr>fileName = f,
                           errorMsg = txt_output_file @ outputPathOf inputDir outputDir f @
                                      txt_empty_after @ f\<rparr>] \<and>
            successCount (fst (processFile env inputDir outputDir f (t, w0))) =
              successCount t \<and>
            processFiles env inputDir outputDir (f # rest) (t, w0) =
              processFiles env inputDir outputDir rest
                (processFile env inputDir outputDir f (t, w0))) \<and>
         (\<forall>t w1. files w1 (fileAt env (outputPathOf inputDir outputDir f)) = None \<longrightarrow>
            errors (fst (verifyOutput env (outputPathOf inputDir outputDir f) f (t, w1))) =
              errors t @ [\<lparr>fileName = f,
                           errorMsg = txt_output_file @ outputPathOf inputDir outputDir f @
                                      txt_not_found_after @ f\<rparr>] \<and>
            successCount (fst (verifyOutput env (outputPathOf inputDir outputDir f) f (t, w1))) =
              successCount t)"
proof -
  have ab: "((\<exists>e. res = Some e) \<longleftrightarrow>
            (\<exists>e. readDir env inputDir = Inl e) \<or>
            (\<exists>entries e. readDir env inputDir = Inr entries \<and> selectWebP entries [] \<noteq> [] \<and>
               outputDir \<noteq> [] \<and> outputDir \<noteq> inputDir \<and>
               mkdirAllFault env outputDir = Some e)) \<and>
         (\<forall>e. res = Some e \<longrightarrow>
            files w' = files w \<and> readFilePaths (newCalls w w') = [] \<and>
            (newCalls w w' = [CallReadDir inputDir] \<or>
             newCalls w w' = [CallReadDir inputDir, CallMkdirAll outputDir]))"
  proof (cases "readDir env inputDir")
    case (Inl e)
    from convertDirectory_list_failed [OF Inl, of outputDir w] assms Inl show ?thesis
      by auto
  next
    case (Inr entries)
    show ?thesis
    proof (cases "selectWebP entries [] = []")
      case True
      from convertDirectory_none_found [OF Inr True, of outputDir w] assms Inr True
      show ?thesis
        by auto
    next
      case False
      show ?thesis
      proof (cases "outputDir \<noteq> [] \<and> outputDir \<noteq> inputDir \<and>
                      mkdirAllFault env outputDir \<noteq> None")
        case True
        then obtain e where e: "outputDir \<noteq> []" "outputDir \<noteq> inputDir"
            "mkdirAllFault env outputDir = Some e"
          by auto
        from convertDirectory_mkdir_failed [OF Inr False e, of w] assms Inr False e
        show ?thesis
          by auto
      next
        case no: False
        then have "outputDir = [] \<or> outputDir = inputDir \<or> mkdirAllFault env outputDir = None"
          by auto
        from convertDirectory_run [OF Inr False this, of w] assms Inr no
        show ?thesis
          by auto
      qed
    qed
  qed
  have c: "\<forall>entries. readDir env inputDir = Inr entries \<and> res = None \<longrightarrow>
            readFilePaths (newCalls w w') = map (join inputDir) (selectWebP entries [])"
    using assms convertDirectory_calls [of env inputDir _ outputDir w w']
    by auto
  have d: "(\<forall>t w0 err w1 rest.
      convertWebPToPNG env (join inputDir f) (outputPathOf inputDir outputDir f) w0 =
        (Some err, w1) \<longrightarrow>
      errors (fst (processFile env inputDir outputDir f (t, w0))) =
        errors t @ [\<lparr>fileName = f,
                     errorMsg = txt_convert_error @ f @ '': '' @ errorText err\<rparr>] \<and>
      successCount (fst (processFile env inputDir outputDir f (t, w0))) =
        successCount t \<and>
      stderr (snd (processFile env inputDir outputDir f (t, w0))) =
        stderr w1 @ txt_convert_error @ f @ '': '' @ errorText err @ nl \<and>
      files (snd (processFile env inputDir outputDir f (t, w0))) = files w1 \<and>
      processFiles env inputDir outputDir (f # rest) (t, w0) =
        processFiles env inputDir outputDir rest
          (processFile env inputDir outputDir f (t, w0)))"
    by (simp add: processFile_failed addError_def printErr_def)
  have e: "(\<forall>t w0 w1 rest.
      convertWebPToPNG env (join inputDir f) (outputPathOf inputDir outputDir f) w0 =
        (None, w1) \<and>
      files w1 (fileAt env (outputPathOf inputDir outputDir f)) = Some [] \<longrightarrow>
      errors (fst (processFile env inputDir outputDir f (t, w0))) =
        errors t @ [\<lparr>fileName = f,
                     errorMsg = txt_output_file @ outputPathOf inputDir outputDir f @
                                txt_empty_after @ f\<rparr>] \<and>
      successCount (fst (processFile env inputDir outputDir f (t, w0))) =
        successCount t \<and>
      processFiles env inputDir outputDir (f # rest) (t, w0) =
        processFiles env inputDir outputDir rest
          (processFile env inputDir outputDir f (t, w0)))"
    by (simp add: processFile_converted verifyOutput_empty addError_def)
  have f: "(\<forall>t w1. files w1 (fileAt env (outputPathOf inputDir outputDir f)) = None \<longrightarrow>
      errors (fst (verifyOutput env (outputPathOf inputDir outputDir f) f (t, w1))) =
        errors t @ [\<lparr>fileName = f,
                     errorMsg = txt_output_file @ outputPathOf inputDir outputDir f @
                                txt_not_found_after @ f\<rparr>] \<and>
      successCount (fst (verifyOutput env (outputPathOf inputDir outputDir f) f (t, w1))) =
        successCount t)"
    by (simp add: verifyOutput_missing addError_def)
  from ab c d e f show ?thesis
    by (intro conjI) (elim conjE, assumption)+
qed

theorem batch_failures_do_not_abort_witness:
  "fst (convertDirectory mkdirFailEnv ''pics'' ''out'' demoWorld) =
     Some (txt_mkdir_failed @ ''permission denied'') \<and>
   files (snd (convertDirectory mkdirFailEnv ''pics'' ''out'' demoWorld)) = files demoWorld \<and>
   readFilePaths (newCalls demoWorld (snd (convertDirectory mkdirFailEnv ''pics'' ''out'' demoWorld)))
     = [] \<and>
   fst (convertDirectory demoEnv ''pics'' [] demoWorld) = None \<and>
   readFilePaths (newCalls demoWorld (snd (convertDirectory demoEnv ''pics'' [] demoWorld))) =
     map (join ''pics'') [''a.webp'', ''b.WEBP'', ''broken.webp'', ''e.webp''] \<and>
   fst (convertWebPToPNG demoEnv (join ''pics'' ''broken.webp'')
          (outputPathOf ''pics'' [] ''broken.webp'') demoWorld) =
     Some (DecodeFailed ''invalid JPEG format: missing SOI marker'') \<and>
   errors (fst (processFile demoEnv ''pics'' [] ''broken.webp''
                  (\<lparr>errors = [], successCount = 0\<rparr>, demoWorld))) =
     [\<lparr>fileName = ''broken.webp'',
       errorMsg = txt_convert_error @ ''broken.webp'' @ '': '' @ txt_decode_failed @
                  ''invalid JPEG format: missing SOI marker''\<rparr>] \<and>
   successCount (fst (processFile demoEnv ''pics'' [] ''broken.webp''
                  (\<lparr>errors = [], successCount = 0\<rparr>, demoWorld))) = 0 \<and>
   errors (fst (processFiles demoEnv ''pics'' [] [''broken.webp'', ''a.webp'']
                  (\<lparr>errors = [], successCount = 0\<rparr>, demoWorld))) =
     [\<lparr>fileName = ''broken.webp'',
       errorMsg = txt_convert_error @ ''broken.webp'' @ '': '' @ txt_decode_failed @
                  ''invalid JPEG format: missing SOI marker''\<rparr>] \<and>
   successCount (fst (processFiles demoEnv ''pics'' [] [''broken.webp'', ''a.webp'']
                  (\<lparr>errors = [], successCount = 0\<rparr>, demoWorld))) = 1"
proof -
  define r1 where "r1 = convertDirectory mkdirFailEnv ''pics'' ''out'' demoWorld"
  define r2 where "r2 = convertDirectory demoEnv ''pics'' [] demoWorld"
  define c where "c = convertWebPToPNG demoEnv (join ''pics'' ''broken.webp'')
          (outputPathOf ''pics'' [] ''broken.webp'') demoWorld"
  define step where "step = processFile demoEnv ''pics'' [] ''broken.webp''
                  (\<lparr>errors = [], successCount = 0\<rparr>, demoWorld)"
  have sel: "selectWebP demoEntries [] = [''a.webp'', ''b.WEBP'', ''broken.webp'', ''e.webp'']"
    by (simp add: demoEntries_def hasSuffix_def toLower_def toLowerByte_def)
  have rd: "readDir mkdirFailEnv ''pics'' = Inr demoEntries"
    "readDir demoEnv ''pics'' = Inr demoEntries"
    and mk: "mkdirAllFault mkdirFailEnv ''out'' = Some ''permission denied''"
    "mkdirAllFault demoEnv ''out'' = None"
    by (simp_all add: mkdirFailEnv_def demoEnv_def)
  note t1 = batch_failures_do_not_abort
      [where env=mkdirFailEnv and inputDir="''pics''" and outputDir="''out''" and w=demoWorld
         and res="fst r1" and w'="snd r1", unfolded r1_def [symmetric], OF pair_collapse]
  note t2 = batch_failures_do_not_abort
      [where env=demoEnv and inputDir="''pics''" and outputDir="[]" and w=demoWorld
         and res="fst r2" and w'="snd r2" and f="''broken.webp''",
       unfolded r2_def [symmetric], OF pair_collapse]
  from convertDirectory_mkdir_failed [OF rd(1) _ _ _ mk(1), of demoWorld] sel
  have 1: "fst r1 = Some (txt_mkdir_failed @ ''permission denied'')"
    by (simp add: r1_def)
  with t1 have 2: "files (snd r1) = files demoWorld \<and> readFilePaths (newCalls demoWorld (snd r1)) = []"
    by simp
  from t2 rd(2) sel have 3: "fst r2 = None"
    by (cases "fst r2") auto
  with t2 rd(2) sel have 4: "readFilePaths (newCalls demoWorld (snd r2)) =
     map (join ''pics'') [''a.webp'', ''b.WEBP'', ''broken.webp'', ''e.webp'']"
    by simp
  have p: "join ''pics'' ''broken.webp'' = ''pics/broken.webp''"
    by (simp add: join_def clean_def cleanStep_def)
  have h: "readFault demoEnv ''pics/broken.webp'' = None"
    "files demoWorld (fileAt demoEnv ''pics/broken.webp'') = Some ''hello''"
    "decodeImage demoEnv ''hello'' = Inl ''invalid JPEG format: missing SOI marker''"
    by (simp_all add: demoEnv_def demoWorld_def decodeImage_def)
  from convert_decode_failed [OF h] have 5:
    "fst c = Some (DecodeFailed ''invalid JPEG format: missing SOI marker'')"
    by (simp add: c_def p)
  then have run: "convertWebPToPNG demoEnv (join ''pics'' ''broken.webp'')
          (outputPathOf ''pics'' [] ''broken.webp'') demoWorld =
       (Some (DecodeFailed ''invalid JPEG format: missing SOI marker''), snd c)"
    by (simp add: c_def prod_eq_iff)
  from t2 have "\<forall>t w0 err w1 rest.
            convertWebPToPNG demoEnv (join ''pics'' ''broken.webp'')
              (outputPathOf ''pics'' [] ''broken.webp'') w0 = (Some err, w1) \<longrightarrow>
            errors (fst (processFile demoEnv ''pics'' [] ''broken.webp'' (t, w0))) =
              errors t @ [\<lparr>fileName = ''broken.webp'',
                           errorMsg = txt_convert_error @ ''broken.webp'' @ '': '' @
                                      errorText err\<rparr>] \<and>
            successCount (fst (processFile demoEnv ''pics'' [] ''broken.webp'' (t, w0))) =
              successCount t"
    by (elim conjE) simp
  from this [rule_format, OF run, of "\<lparr>errors = [], successCount = 0\<rparr>"]
  have 6: "errors (fst step) =
     [\<lparr>fileName = ''broken.webp'',
       errorMsg = txt_convert_error @ ''broken.webp'' @ '': '' @ txt_decode_failed @
                  ''invalid JPEG format: missing SOI marker''\<rparr>]"
    "successCount (fst step) = 0"
    by (simp_all add: step_def)
  have 7: "processFiles demoEnv ''pics'' [] [''broken.webp'', ''a.webp'']
                  (\<lparr>errors = [], successCount = 0\<rparr>, demoWorld) =
           processFile demoEnv ''pics'' [] ''a.webp'' step"
    by (simp add: step_def)
  have 8: "fst (processFile demoEnv ''pics'' [] ''a.webp'' step) =
             (fst step)\<lparr>successCount := successCount (fst step) + 1\<rparr>"
    by (simp add: step_def processFile_def verifyOutput_def convertWebPToPNG_def os_defs
          decodeImage_def demoEnv_def demoWorld_def join_def clean_def cleanStep_def
          outputPathOf_def pngNameOf_def ext_def trimSuffix_def hasSuffix_def addError_def)
  from 1 2 3 4 5 6 7 8 show ?thesis
    unfolding r1_def r2_def c_def step_def by simp
qed

section \<open>The report and the summary\<close>

text \<open>
  C6. Take a run that selected \<open>N > 0\<close> files and could use its output directory, and let
  the main loop leave \<open>K\<close> recorded errors. The errors are errors of selected files, in the
  order of the files; the loop counted \<open>N - K\<close> successes, and the run returns no error and
  ends its output with the summary of \<open>N - K\<close> out of \<open>N\<close>. With \<open>K = 0\<close> nothing is done
  after the loop but printing the summary: no file is created or written. With \<open>K > 0\<close> the
  file \<^verbatim>\<open>conversion_errors.txt\<close> in the output directory, or in the input directory when no
  output directory is given, is created and holds exactly the report text: the header, the
  count \<open>K\<close>, and the \<open>K\<close> entries numbered from 1 in the order of the errors, each with the
  file name and the message. When this file cannot be created, a warning is printed, no file
  changes and the run still returns no error.
\<close>

theorem report_and_summary:
  assumes "readDir env inputDir = Inr entries"
    and "selectWebP entries [] = webpFiles" and "webpFiles \<noteq> []"
    and "outputDir = [] \<or> outputDir = inputDir \<or> mkdirAllFault env outputDir = None"
    and "processFiles env inputDir outputDir webpFiles
           (\<lparr>errors = [], successCount = 0\<rparr>,
            loopStart inputDir outputDir (length webpFiles) w) = (t, w3)"
    and "convertDirectory env inputDir outputDir w = (res, w')"
  shows "res = None \<and>
         subseq (map fileName (errors t)) webpFiles \<and>
         length (errors t) \<le> length webpFiles \<and>
         successCount t = length webpFiles - length (errors t) \<and>
         (\<exists>mid. stdout w' = stdout w3 @ mid @ txt_done @
                   itoa (length webpFiles - length (errors t)) @ txt_of @
                   itoa (length webpFiles) @ nl) \<and>
         (errors t = [] \<longrightarrow> files w' = files w3 \<and> trace w' = trace w3) \<and>
         (errors t \<noteq> [] \<and> createFault env (reportPathOf inputDir outputDir) = None \<longrightarrow>
            files w' = (files w3)(fileAt env (reportPathOf inputDir outputDir) \<mapsto> reportText (errors t))) \<and>
         (\<forall>e. errors t \<noteq> [] \<and> createFault env (reportPathOf inputDir outputDir) = Some e \<longrightarrow>
            files w' = files w3 \<and> stderr w' = stderr w3 @ txt_report_warning @ e @ nl) \<and>
         reportPathOf inputDir outputDir =
           join (if outputDir = [] then inputDir else outputDir) ''conversion_errors.txt'' \<and>
         reportText (errors t) =
           txt_report_header @ txt_report_rule @
           txt_total_errors @ itoa (length (errors t)) @ nl @ nl @
           concat (map reportEntry (enumerate 0 (errors t))) \<and>
         map fst (enumerate 0 (errors t)) = [0..<length (errors t)] \<and>
         map snd (enumerate 0 (errors t)) = errors t \<and>
         (\<forall>i e. reportEntry (i, e) =
                  itoa (i + 1) @ txt_entry_file @ fileName e @ nl @
                  txt_entry_error @ errorMsg e @ nl @ nl)"
proof -
  let ?start = "(\<lparr>errors = [], successCount = 0\<rparr>,
                 loopStart inputDir outputDir (length webpFiles) w)"
  from assms(1-4,6) convertDirectory_run [of env inputDir entries outputDir w] assms(5)
  have res: "res = None"
    and w': "w' = finishBatch env inputDir outputDir (length webpFiles) (t, w3)"
    by simp_all
  from processFiles_errors [of env inputDir outputDir webpFiles ?start] assms(5)
  have sub: "subseq (map fileName (errors t)) webpFiles"
    by simp
  from processFiles_tally [of env inputDir outputDir webpFiles ?start] assms(5)
  have tally: "length (errors t) + successCount t = length webpFiles"
    by simp
  then have cnt: "length (errors t) \<le> length webpFiles"
    "successCount t = length webpFiles - length (errors t)"
    by simp_all
  have out: "\<exists>mid. stdout w' = stdout w3 @ mid @ txt_done @
                   itoa (length webpFiles - length (errors t)) @ txt_of @
                   itoa (length webpFiles) @ nl"
  proof (cases "errors t = []")
    case True
    with w' cnt(2) have "stdout w' = stdout w3 @ [] @ txt_done @
                   itoa (length webpFiles - length (errors t)) @ txt_of @
                   itoa (length webpFiles) @ nl"
      by (simp add: finishBatch_no_errors)
    then show ?thesis ..
  next
    case False
    show ?thesis
    proof (cases "createFault env (reportPathOf inputDir outputDir)")
      case None
      with False w' cnt(2) have "stdout w' = stdout w3 @
          (txt_report_created @ reportPathOf inputDir outputDir @ nl) @ txt_done @
                   itoa (length webpFiles - length (errors t)) @ txt_of @
                   itoa (length webpFiles) @ nl"
        by (simp add: finishBatch_report)
      then show ?thesis ..
    next
      case (Some e)
      with False w' cnt(2) have "stdout w' = stdout w3 @ [] @ txt_done @
                   itoa (length webpFiles - length (errors t)) @ txt_of @
                   itoa (length webpFiles) @ nl"
        by (simp add: finishBatch_no_report)
      then show ?thesis ..
    qed
  qed
  have k0: "errors t = [] \<longrightarrow> files w' = files w3 \<and> trace w' = trace w3"
    using w' by (simp add: finishBatch_no_errors)
  have rep: "errors t \<noteq> [] \<and> createFault env (reportPathOf inputDir outputDir) = None \<longrightarrow>
            files w' = (files w3)(fileAt env (reportPathOf inputDir outputDir) \<mapsto> reportText (errors t))"
    using w' by (simp add: finishBatch_report)
  have warn: "\<forall>e. errors t \<noteq> [] \<and> createFault env (reportPathOf inputDir outputDir) = Some e \<longrightarrow>
            files w' = files w3 \<and> stderr w' = stderr w3 @ txt_report_warning @ e @ nl"
    using w' by (simp add: finishBatch_no_report)
  have shape: "reportPathOf inputDir outputDir =
           join (if outputDir = [] then inputDir else outputDir) ''conversion_errors.txt''"
    "reportText (errors t) =
           txt_report_header @ txt_report_rule @
           txt_total_errors @ itoa (length (errors t)) @ nl @ nl @
           concat (map reportEntry (enumerate 0 (errors t)))"
    "map fst (enumerate 0 (errors t)) = [0..<length (errors t)]"
    "map snd (enumerate 0 (errors t)) = errors t"
    "\<forall>i e. reportEntry (i, e) =
                  itoa (i + 1) @ txt_entry_file @ fileName e @ nl @
                  txt_entry_error @ errorMsg e @ nl @ nl"
    by (simp_all add: reportPathOf_def reportText_def reportEntry_def)
  from res sub cnt out k0 rep warn shape show ?thesis
    by (intro conjI)
qed

theorem report_and_summary_witness:
  "readDir demoEnv ''pics'' = Inr demoEntries \<and>
   selectWebP demoEntries [] = [''a.webp'', ''b.WEBP'', ''broken.webp'', ''e.webp''] \<and>
   fst (convertDirectory demoEnv ''pics'' [] demoWorld) = None \<and>
   map fileName (errors (fst demoLoop)) = [''broken.webp'', ''e.webp''] \<and>
   successCount (fst demoLoop) = 2 \<and>
   files (snd (convertDirectory demoEnv ''pics'' [] demoWorld)) ''pics/conversion_errors.txt'' =
     Some (reportText (errors (fst demoLoop)))"
proof -
  define r where "r = convertDirectory demoEnv ''pics'' [] demoWorld"
  have sel: "selectWebP demoEntries [] = [''a.webp'', ''b.WEBP'', ''broken.webp'', ''e.webp'']"
    by (simp add: demoEntries_def hasSuffix_def toLower_def toLowerByte_def)
  have rd: "readDir demoEnv ''pics'' = Inr demoEntries"
    and cf: "createFault demoEnv (reportPathOf ''pics'' []) = None"
    by (simp_all add: demoEnv_def)
  have rp: "reportPathOf ''pics'' [] = ''pics/conversion_errors.txt''"
    by (simp add: reportPathOf_def join_def clean_def cleanStep_def)
  have names: "map fileName (errors (fst demoLoop)) = [''broken.webp'', ''e.webp'']"
    by (simp add: demoLoop_def processFile_def verifyOutput_def convertWebPToPNG_def os_defs
          decodeImage_def demoEnv_def demoWorld_def join_def clean_def cleanStep_def
          outputPathOf_def pngNameOf_def ext_def trimSuffix_def hasSuffix_def addError_def
          loopStart_def)
  then have "length (map fileName (errors (fst demoLoop))) = 2"
    by simp
  then have len: "length (errors (fst demoLoop)) = 2"
    by simp
  then have ne: "errors (fst demoLoop) \<noteq> []"
    by auto
  have loop: "processFiles demoEnv ''pics'' [] [''a.webp'', ''b.WEBP'', ''broken.webp'', ''e.webp'']
       (\<lparr>errors = [], successCount = 0\<rparr>,
        loopStart ''pics'' [] (length [''a.webp'', ''b.WEBP'', ''broken.webp'', ''e.webp'']) demoWorld) =
       (fst demoLoop, snd demoLoop)"
    by (simp add: demoLoop_def eval_nat_numeral)
  note t = report_and_summary [where res="fst r" and w'="snd r", OF rd sel _ _ loop,
      unfolded r_def [symmetric], OF _ _ pair_collapse]
  from t have 1: "fst r = None"
    by simp
  from t len have 2: "successCount (fst demoLoop) = 2"
    by simp
  from t ne cf have "files (snd r) =
      (files (snd demoLoop))(reportPathOf ''pics'' [] \<mapsto> reportText (errors (fst demoLoop)))"
    by simp
  with rp have 3: "files (snd r) ''pics/conversion_errors.txt'' =
      Some (reportText (errors (fst demoLoop)))"
    by simp
  from rd sel names 1 2 3 show ?thesis
    unfolding r_def by simp
qed

end
